theory Spec2Isabelle
  imports Complex_Main
begin

section \<open>JavaScript values used by the coordination core\<close>

text \<open>
  The server computes with IEEE doubles. The model computes with exact rationals and keeps
  the three non-finite results a division can produce, because the code divides by the
  number of evaluations and that number is zero when no agent is online: \<open>0 / 0\<close> is
  \<open>NaN\<close>, and every comparison with \<open>NaN\<close> is false. Rounding is not modelled: the
  thresholds \<open>0.67\<close>, \<open>0.7\<close>, \<open>0.5\<close> and the weights are read as the decimal
  fractions written in the source.
\<close>

datatype js_number = Num rat | PosInfinity | NegInfinity | NaN

text \<open>\<open>x / y\<close> for finite operands, the divisor being a non-negative count.\<close>

definition js_div :: "rat \<Rightarrow> rat \<Rightarrow> js_number" where
  "js_div x y =
     (if y = 0 then (if x = 0 then NaN else if 0 < x then PosInfinity else NegInfinity)
      else Num (x / y))"

fun js_ge :: "js_number \<Rightarrow> rat \<Rightarrow> bool" where
  "js_ge (Num x) t = (t \<le> x)"
| "js_ge PosInfinity t = True"
| "js_ge NegInfinity t = False"
| "js_ge NaN t = False"

fun js_le :: "js_number \<Rightarrow> rat \<Rightarrow> bool" where
  "js_le (Num x) t = (x \<le> t)"
| "js_le PosInfinity t = False"
| "js_le NegInfinity t = True"
| "js_le NaN t = False"

fun js_lt :: "js_number \<Rightarrow> rat \<Rightarrow> bool" where
  "js_lt (Num x) t = (x < t)"
| "js_lt PosInfinity t = False"
| "js_lt NegInfinity t = True"
| "js_lt NaN t = False"

text \<open>\<open>x + y\<close> on numbers.\<close>

fun js_add :: "js_number \<Rightarrow> js_number \<Rightarrow> js_number" where
  "js_add (Num a) (Num b) = Num (a + b)"
| "js_add NaN y = NaN"
| "js_add x NaN = NaN"
| "js_add PosInfinity NegInfinity = NaN"
| "js_add NegInfinity PosInfinity = NaN"
| "js_add PosInfinity y = PosInfinity"
| "js_add x PosInfinity = PosInfinity"
| "js_add NegInfinity y = NegInfinity"
| "js_add x NegInfinity = NegInfinity"

text \<open>\<open>x / t\<close> for a number \<open>x\<close> and a finite \<open>t\<close>.\<close>

fun js_over :: "js_number \<Rightarrow> rat \<Rightarrow> js_number" where
  "js_over (Num a) t = js_div a t"
| "js_over NaN t = NaN"
| "js_over PosInfinity t = (if t < 0 then NegInfinity else PosInfinity)"
| "js_over NegInfinity t = (if t < 0 then PosInfinity else NegInfinity)"

text \<open>\<open>xs.slice(-n)\<close> for \<open>n \<ge> 1\<close>: the last \<open>n\<close> elements, all of them when there are fewer.\<close>

definition slice_last :: "nat \<Rightarrow> 'a list \<Rightarrow> 'a list" where
  "slice_last n xs = drop (length xs - n) xs"

text \<open>Decimal rendering of a non-negative integer, as a template string interpolates it.\<close>

definition digit_char :: "nat \<Rightarrow> char" where
  "digit_char n = ''0123456789'' ! n"

fun string_of_nat :: "nat \<Rightarrow> string" where
  "string_of_nat n = (if n < 10 then [digit_char n] else string_of_nat (n div 10) @ [digit_char (n mod 10)])"

declare string_of_nat.simps [simp del]

section \<open>Agents and evaluations\<close>

text \<open>
  Object literals carry key/value pairs; metadata is kept as the list of its pairs in
  insertion order.
\<close>

type_synonym metadata = "(string \<times> string) list"

record identity_data =
  data_id :: string
  data_type :: string
  data_metadata :: "metadata option"

record evaluation =
  agentId :: string
  specialization :: string
  timestamp :: string
  decision :: string
  confidence :: rat
  reasoning :: "string list"
  securityScore :: rat
  isByzantine :: bool

text \<open>
  The field \<open>isByzantine\<close> is absent (undefined, falsy) on an honest evaluation and
  \<open>true\<close> on a malicious one; the model writes \<open>False\<close> for the absent field.
\<close>

record identity_agent =
  agent_agentId :: string
  agent_specialization :: string
  status :: string
  agent_isByzantine :: bool

text \<open>The random draws one call of \<open>evaluateIdentity\<close> consumes, each in \<open>[0, 1)\<close>.\<close>

record draws =
  byzantineRoll :: rat
  confidenceRoll :: rat
  securityRoll :: rat
  duplicateRoll :: rat

definition validateFormat :: "string \<Rightarrow> string \<Rightarrow> string" where
  "validateFormat i t = (if i \<noteq> [] \<and> t \<noteq> [] \<and> 5 < length i then ''PASSED'' else ''FAILED'')"

definition checkDuplicates :: "draws \<Rightarrow> string" where
  "checkDuplicates d = (if 1 / 10 < duplicateRoll d then ''NO_DUPLICATES'' else ''POTENTIAL_DUPLICATE'')"

definition analyzePatterns :: "string \<Rightarrow> string" where
  "analyzePatterns t =
     (if t = ''vehicle'' then ''AUTOMOTIVE''
      else if t = ''pet'' then ''BIOMETRIC''
      else if t = ''iot-device'' then ''TELEMATIC''
      else ''UNKNOWN'')"

definition generateResponse :: "identity_agent \<Rightarrow> identity_data \<Rightarrow> draws \<Rightarrow> string \<Rightarrow> evaluation" where
  "generateResponse this identityData d now =
     (let score = securityRoll d * (3 / 10) + 7 / 10 in
      \<lparr> agentId = agent_agentId this,
        specialization = agent_specialization this,
        timestamp = now,
        decision = ''APPROVED'',
        confidence = 85 / 100 + confidenceRoll d * (10 / 100),
        reasoning =
          (if agent_specialization this = ''validator'' then
             [ ''Identity format validation: '' @ validateFormat (data_id identityData) (data_type identityData),
               ''Metadata completeness: '' @ (if data_metadata identityData \<noteq> None then ''PASSED'' else ''MINIMAL''),
               ''Duplicate detection: '' @ checkDuplicates d ]
           else if agent_specialization this = ''consensus'' then
             [ ''Network consensus probability: HIGH'',
               ''Historical pattern match: '' @ analyzePatterns (data_type identityData),
               ''Cross-domain consistency: VERIFIED'' ]
           else if agent_specialization this = ''security'' then
             [ ''Cryptographic signature: VALID'',
               ''Authentication protocol: SECURE'',
               ''Risk assessment: '' @ (if 8 / 10 < score then ''LOW'' else ''MEDIUM'') ]
           else []),
        securityScore = score,
        isByzantine = False \<rparr>)"

definition generateByzantineResponse :: "identity_agent \<Rightarrow> string \<Rightarrow> evaluation" where
  "generateByzantineResponse this now =
     \<lparr> agentId = agent_agentId this,
       specialization = agent_specialization this,
       timestamp = now,
       decision = ''REJECTED'',
       confidence = 2 / 10,
       reasoning = [''Byzantine fault simulation: MALICIOUS_REJECTION''],
       securityScore = 1 / 10,
       isByzantine = True \<rparr>"

definition evaluateIdentity :: "identity_agent \<Rightarrow> identity_data \<Rightarrow> draws \<Rightarrow> string \<Rightarrow> evaluation" where
  "evaluateIdentity this identityData d now =
     (if agent_isByzantine this \<and> byzantineRoll d < 3 / 10
      then generateByzantineResponse this now
      else generateResponse this identityData d now)"

section \<open>The coordinator\<close>

record consensus_result =
  approvals :: nat
  rejections :: nat
  totalAgents :: nat
  consensusRatio :: js_number
  consensusAchieved :: bool
  averageConfidence :: js_number
  averageSecurityScore :: js_number
  recommendedDecision :: string

text \<open>
  The record of the Byzantine handling has three fields only when a Byzantine evaluation was
  found; \<open>None\<close> is the absent field.
\<close>

record byzantine_fault_handling =
  byzantineAgentsDetected :: nat
  byzantineAgentIds :: "string list option"
  originalDecision :: "string option"
  correctedDecision :: "string option"
  faultTolerant :: bool

text \<open>
  \<open>handleByzantineFaults\<close> returns an object: the spread consensus, the handling record
  and the decision string. The session stores this object in its own field \<open>finalDecision\<close>,
  written \<open>session_finalDecision\<close> here to tell the two apart.
\<close>

record final_decision =
  spread_consensus :: consensus_result
  byzantineFaultHandling :: byzantine_fault_handling
  finalDecision :: string

record coordination_session =
  coordinationId :: string
  identityId :: string
  session_timestamp :: string
  participatingAgents :: nat
  agentEvaluations :: "evaluation list"
  consensus :: consensus_result
  session_finalDecision :: final_decision
  processingTime :: int
  byzantineDetected :: bool

text \<open>The object the \<open>catch\<close> branch returns: it has these four fields and no others.\<close>

record coordination_failure =
  failure_coordinationId :: string
  error :: string
  failure_timestamp :: string
  failure_processingTime :: int

datatype coordination_result = Session coordination_session | Failure coordination_failure

record multi_agent_coordinator =
  agents :: "identity_agent list"
  consensusThreshold :: rat
  coordinationHistory :: "coordination_session list"

definition new_MultiAgentCoordinator :: multi_agent_coordinator where
  "new_MultiAgentCoordinator =
     \<lparr> agents =
         [ \<lparr> agent_agentId = ''agent-validator-001'', agent_specialization = ''validator'',
             status = ''online'', agent_isByzantine = False \<rparr>,
           \<lparr> agent_agentId = ''agent-consensus-002'', agent_specialization = ''consensus'',
             status = ''online'', agent_isByzantine = False \<rparr>,
           \<lparr> agent_agentId = ''agent-security-003'', agent_specialization = ''security'',
             status = ''online'', agent_isByzantine = False \<rparr> ],
       consensusThreshold = 67 / 100,
       coordinationHistory = [] \<rparr>"

definition calculateConsensus :: "multi_agent_coordinator \<Rightarrow> evaluation list \<Rightarrow> consensus_result" where
  "calculateConsensus this evaluations =
     (let n_approvals = length (filter (\<lambda>e. decision e = ''APPROVED'') evaluations);
          n_total = length evaluations;
          ratio = js_div (of_nat n_approvals) (of_nat n_total)
      in \<lparr> approvals = n_approvals,
           rejections = n_total - n_approvals,
           totalAgents = n_total,
           consensusRatio = ratio,
           consensusAchieved = js_ge ratio (consensusThreshold this),
           averageConfidence =
             js_div (foldl (\<lambda>sum e. sum + confidence e) 0 evaluations) (of_nat n_total),
           averageSecurityScore =
             js_div (foldl (\<lambda>sum e. sum + securityScore e) 0 evaluations) (of_nat n_total),
           recommendedDecision =
             (if js_ge ratio (consensusThreshold this) then ''APPROVED'' else ''REJECTED'') \<rparr>)"

definition handleByzantineFaults ::
  "multi_agent_coordinator \<Rightarrow> consensus_result \<Rightarrow> evaluation list \<Rightarrow> final_decision" where
  "handleByzantineFaults this cons evaluations =
     (let byzantineAgents = filter isByzantine evaluations in
      if 0 < length byzantineAgents then
        (let honestEvaluations = filter (\<lambda>e. \<not> isByzantine e) evaluations;
             honestConsensus = calculateConsensus this honestEvaluations
         in \<lparr> spread_consensus = cons,
              byzantineFaultHandling =
                \<lparr> byzantineAgentsDetected = length byzantineAgents,
                  byzantineAgentIds = Some (map agentId byzantineAgents),
                  originalDecision = Some (recommendedDecision cons),
                  correctedDecision = Some (recommendedDecision honestConsensus),
                  faultTolerant = True \<rparr>,
              finalDecision = recommendedDecision honestConsensus \<rparr>)
      else
        \<lparr> spread_consensus = cons,
          byzantineFaultHandling =
            \<lparr> byzantineAgentsDetected = 0,
              byzantineAgentIds = None,
              originalDecision = None,
              correctedDecision = None,
              faultTolerant = True \<rparr>,
          finalDecision = recommendedDecision cons \<rparr>)"

text \<open>
  \<open>Promise.all\<close>: the list of results when every promise fulfils, the rejection when one
  rejects (the first in roster order stands for whichever rejects first).
\<close>

fun promise_all :: "(string + 'a) list \<Rightarrow> string + 'a list" where
  "promise_all [] = Inr []"
| "promise_all (Inl e # rs) = Inl e"
| "promise_all (Inr v # rs) = (case promise_all rs of Inl e \<Rightarrow> Inl e | Inr vs \<Rightarrow> Inr (v # vs))"

text \<open>The readings of the clock during one call, in the order the code takes them.\<close>

record clock =
  startNow :: nat
  idNow :: nat
  isoNow :: string
  endNow :: nat

text \<open>
  \<open>coordinateIdentityDecision\<close>. The asynchronous evaluation of an agent is the parameter
  \<open>dispatch\<close>: it fulfils with an evaluation (\<open>Inr\<close>) or rejects with an error whose message
  is given (\<open>Inl\<close>). The coordinator is passed in and returned, since the call appends to the
  history. The counters an evaluation updates on the agent are not part of the model.
\<close>

definition coordinateIdentityDecision ::
  "multi_agent_coordinator \<Rightarrow> clock \<Rightarrow> (identity_agent \<Rightarrow> string + evaluation) \<Rightarrow> identity_data
     \<Rightarrow> coordination_result \<times> multi_agent_coordinator" where
  "coordinateIdentityDecision this clk dispatch identityData =
     (let coordinationStart = startNow clk;
          cid = ''coord-'' @ string_of_nat (idNow clk)
      in case promise_all (map dispatch (filter (\<lambda>a. status a = ''online'') (agents this))) of
           Inr evaluations \<Rightarrow>
             (let cons = calculateConsensus this evaluations;
                  decided = handleByzantineFaults this cons evaluations;
                  coordinationSession =
                    \<lparr> coordinationId = cid,
                      identityId = data_id identityData,
                      session_timestamp = isoNow clk,
                      participatingAgents = length evaluations,
                      agentEvaluations = evaluations,
                      consensus = cons,
                      session_finalDecision = decided,
                      processingTime = int (endNow clk) - int coordinationStart,
                      byzantineDetected = list_ex isByzantine evaluations \<rparr>;
                  pushed = coordinationHistory this @ [coordinationSession]
              in (Session coordinationSession,
                  this\<lparr>coordinationHistory :=
                         (if 50 < length pushed then slice_last 50 pushed else pushed)\<rparr>))
         | Inl message \<Rightarrow>
             (Failure \<lparr> failure_coordinationId = cid,
                        error = message,
                        failure_timestamp = isoNow clk,
                        failure_processingTime = int (endNow clk) - int coordinationStart \<rparr>,
              this))"

text \<open>
  What a caller reads as \<open>coordinationResult.finalDecision\<close>: the object of a session,
  \<open>undefined\<close> on the object of the \<open>catch\<close> branch. \<open>v === 'text'\<close> holds only for a
  string value with the same characters.
\<close>

datatype js_value = JSUndefined | JSString string | JSObject final_decision

fun get_finalDecision :: "coordination_result \<Rightarrow> js_value" where
  "get_finalDecision (Session s) = JSObject (session_finalDecision s)"
| "get_finalDecision (Failure f) = JSUndefined"

fun strict_equals_string :: "js_value \<Rightarrow> string \<Rightarrow> bool" where
  "strict_equals_string (JSString s) t = (s = t)"
| "strict_equals_string JSUndefined t = False"
| "strict_equals_string (JSObject obj) t = False"

section \<open>The explainable decision engine\<close>

text \<open>
  What \<open>this.confidenceWeights[s] || 0.33\<close> evaluates to. The table is a plain object, so a
  lookup that finds no own key goes on to the properties every object inherits from
  \<open>Object.prototype\<close>. Each of those is a function (or, for \<open>__proto__\<close>, the prototype
  object itself): a truthy value that is not a number, kept here with the name it was found
  under.
\<close>

datatype js_weight = Weight rat | Inherited string

definition object_prototype_names :: "string list" where
  "object_prototype_names =
     [ ''constructor'', ''hasOwnProperty'', ''isPrototypeOf'', ''propertyIsEnumerable'',
       ''toLocaleString'', ''toString'', ''valueOf'', ''__proto__'',
       ''__defineGetter__'', ''__defineSetter__'', ''__lookupGetter__'', ''__lookupSetter__'' ]"

text \<open>
  \<open>confidence * weight\<close>: a function or an object converts to \<open>NaN\<close>, and so does the
  product.
\<close>

fun confidence_times :: "rat \<Rightarrow> js_weight \<Rightarrow> js_number" where
  "confidence_times c (Weight w) = Num (c * w)"
| "confidence_times c (Inherited n) = NaN"

text \<open>
  The accumulator \<open>totalWeight\<close>. It is a number until a function or an object is added to
  it; \<open>+\<close> then concatenates their texts, and every later \<open>+=\<close> concatenates again. Such a
  string holds the text of a function or \<open>[object Object]\<close>, so it converts to \<open>NaN\<close>
  and \<open>totalWeight > 0\<close> is false.
\<close>

datatype js_total = Summed rat | Concatenated

fun add_weight :: "js_total \<Rightarrow> js_weight \<Rightarrow> js_total" where
  "add_weight (Summed t) (Weight w) = Summed (t + w)"
| "add_weight (Summed t) (Inherited n) = Concatenated"
| "add_weight Concatenated w = Concatenated"

record agent_weight =
  agent :: string
  agent_confidence :: rat
  weight :: js_weight

record confidence_breakdown =
  overall :: js_number
  byAgent :: "agent_weight list"
  methodology :: string

text \<open>
  Of an explanation the model keeps the identifier, the timestamp, the confidence breakdown
  and the anomaly score. The summary text, the per-agent analysis, the risk factors, the
  narrative steps and the feature vector are derived from the same session and stored beside
  them; they take no part in the history or in the two numbers.
\<close>

record explanation =
  explanation_coordinationId :: string
  explanation_timestamp :: string
  confidenceBreakdown :: confidence_breakdown
  anomalyScore :: rat

record explainable_decision_engine =
  decisionHistory :: "explanation list"
  confidenceWeights :: "(string \<times> rat) list"

definition new_ExplainableDecisionEngine :: explainable_decision_engine where
  "new_ExplainableDecisionEngine =
     \<lparr> decisionHistory = [],
       confidenceWeights = [(''validator'', 4 / 10), (''consensus'', 35 / 100), (''security'', 25 / 100)] \<rparr>"

text \<open>
  \<open>this.confidenceWeights[s] || 0.33\<close>: the own entry of the table, and \<open>0.33\<close> when
  that entry is zero; without an own entry, the inherited property when \<open>s\<close> names one, and
  \<open>0.33\<close> otherwise.
\<close>

definition weight_of :: "explainable_decision_engine \<Rightarrow> string \<Rightarrow> js_weight" where
  "weight_of this s =
     (case map_of (confidenceWeights this) s of
        Some w \<Rightarrow> (if w = 0 then Weight (33 / 100) else Weight w)
      | None \<Rightarrow> (if s \<in> set object_prototype_names then Inherited s else Weight (33 / 100)))"

text \<open>The body of the \<open>forEach\<close>: the pair is (weightedConfidence, totalWeight).\<close>

definition accumulate_confidence ::
  "explainable_decision_engine \<Rightarrow> js_number \<times> js_total \<Rightarrow> evaluation \<Rightarrow> js_number \<times> js_total" where
  "accumulate_confidence this acc e =
     (if \<not> isByzantine e
      then (js_add (fst acc) (confidence_times (confidence e) (weight_of this (specialization e))),
            add_weight (snd acc) (weight_of this (specialization e)))
      else acc)"

definition calculateDetailedConfidence ::
  "explainable_decision_engine \<Rightarrow> coordination_session \<Rightarrow> confidence_breakdown" where
  "calculateDetailedConfidence this coordinationResult =
     (let acc = foldl (accumulate_confidence this) (Num 0, Summed 0) (agentEvaluations coordinationResult)
      in \<lparr> overall = (case snd acc of
                        Summed t \<Rightarrow> (if 0 < t then js_over (fst acc) t else Num 0)
                      | Concatenated \<Rightarrow> Num 0),
           byAgent = map (\<lambda>e. \<lparr> agent = agentId e, agent_confidence = confidence e,
                                 weight = weight_of this (specialization e) \<rparr>)
                         (agentEvaluations coordinationResult),
           methodology = ''Weighted average by agent specialization'' \<rparr>)"

text \<open>
  The weighted confidence in the words of the specification: the weight is 0.4 for validator,
  0.35 for consensus, 0.25 for security and 0.33 for any other specialization; the confidence
  is the sum of confidence times weight over the evaluations not flagged Byzantine, divided by
  the sum of their weights, and 0 when no such evaluation is left.
\<close>

definition spec_weight :: "string \<Rightarrow> rat" where
  "spec_weight sp =
     (if sp = ''validator'' then 4 / 10 else if sp = ''consensus'' then 35 / 100
      else if sp = ''security'' then 25 / 100 else 33 / 100)"

definition spec_weighted_confidence :: "evaluation list \<Rightarrow> rat" where
  "spec_weighted_confidence evs =
     (let honest = filter (\<lambda>e. \<not> isByzantine e) evs
      in if honest = [] then 0
         else (\<Sum>e\<leftarrow>honest. confidence e * spec_weight (specialization e))
              / (\<Sum>e\<leftarrow>honest. spec_weight (specialization e)))"

definition calculateAnomalyScore :: "coordination_session \<Rightarrow> rat" where
  "calculateAnomalyScore coordinationResult =
     (let s0 = 0;
          s1 = (if 3000 < processingTime coordinationResult then s0 + 3 / 10 else s0);
          s2 = (if js_lt (consensusRatio (consensus coordinationResult)) (7 / 10) then s1 + 4 / 10 else s1);
          s3 = (if byzantineDetected coordinationResult then s2 + 5 / 10 else s2);
          s4 = (if js_lt (averageConfidence (consensus coordinationResult)) (5 / 10) then s3 + 6 / 10 else s3)
      in min 1 s4)"

datatype js_error = TypeError | Error string

text \<open>
  \<open>explainCoordination\<close>. Given the object of the \<open>catch\<close> branch, \<open>generateSummary\<close> reads
  a property of the undefined \<open>finalDecision\<close> and throws before anything is stored.
\<close>

fun explainCoordination ::
  "explainable_decision_engine \<Rightarrow> string \<Rightarrow> coordination_result
     \<Rightarrow> js_error + explanation \<times> explainable_decision_engine" where
  "explainCoordination this now (Failure f) = Inl TypeError"
| "explainCoordination this now (Session s) =
     (let expl = \<lparr> explanation_coordinationId = coordinationId s,
                    explanation_timestamp = now,
                    confidenceBreakdown = calculateDetailedConfidence this s,
                    anomalyScore = calculateAnomalyScore s \<rparr>;
          pushed = decisionHistory this @ [expl]
      in Inr (expl, this\<lparr>decisionHistory :=
                          (if 100 < length pushed then slice_last 100 pushed else pushed)\<rparr>))"

section \<open>Digital twins\<close>

record vehicle_state =
  engineTemp :: rat
  oilPressure :: rat
  batteryVoltage :: rat
  fuelLevel :: rat
  mileage :: rat
  rpm :: rat
  speed :: rat
  gpsLocation :: "rat \<times> rat"
  diagnosticCodes :: "string list"
  lastPing :: string

record vehicle_twin =
  twinId :: string
  vin :: string
  metadata :: metadata
  createdAt :: string
  lastUpdate :: string
  telemetryData :: "(string \<times> vehicle_state) list"
  healthScore :: int
  alertCount :: nat
  maintenanceHistory :: "metadata list"
  currentState :: vehicle_state

text \<open>
  The constructor. The initial reading is drawn at random by \<open>generateInitialState\<close> and is
  a parameter here; the timer the constructor starts calls \<open>updateTelemetryData\<close> every five
  seconds.
\<close>

definition new_VehicleDigitalTwin :: "string \<Rightarrow> metadata \<Rightarrow> string \<Rightarrow> vehicle_state \<Rightarrow> vehicle_twin" where
  "new_VehicleDigitalTwin v md now initial =
     \<lparr> twinId = ''TWIN-'' @ v, vin = v, metadata = md, createdAt = now, lastUpdate = now,
       telemetryData = [], healthScore = 100, alertCount = 0, maintenanceHistory = [],
       currentState = initial \<rparr>"

definition updateHealthScore :: "vehicle_twin \<Rightarrow> vehicle_twin" where
  "updateHealthScore this =
     (let s0 = (100 :: int);
          s1 = (if 100 < engineTemp (currentState this) then s0 - 20
                else if 90 < engineTemp (currentState this) then s0 - 10 else s0);
          s2 = (if oilPressure (currentState this) < 25 then s1 - 15 else s1);
          s3 = (if batteryVoltage (currentState this) < 12 then s2 - 10 else s2);
          s4 = s3 - int (length (diagnosticCodes (currentState this))) * 5;
          scored = this\<lparr>healthScore := max 0 s4\<rparr>
      in if healthScore scored < 80 \<and> alertCount scored = 0
         then scored\<lparr>alertCount := alertCount scored + 1\<rparr>
         else scored)"

text \<open>
  One tick of the timer. The sampled reading (a bounded random walk from the current one) and
  its timestamp are parameters.
\<close>

definition updateTelemetryData :: "vehicle_twin \<Rightarrow> string \<Rightarrow> vehicle_state \<Rightarrow> vehicle_twin" where
  "updateTelemetryData this now newData =
     (let pushed = telemetryData this @ [(now, newData)];
          stored = this\<lparr>telemetryData := pushed, currentState := newData, lastUpdate := now\<rparr>;
          trimmed = (if 20 < length (telemetryData stored)
                     then stored\<lparr>telemetryData := slice_last 20 (telemetryData stored)\<rparr>
                     else stored)
      in updateHealthScore trimmed)"

text \<open>
  The deduction table in the words of the specification: 20 for an engine temperature above
  100, 15 for an oil pressure below 25, 10 for a battery voltage below 12.0, 5 for each active
  diagnostic code, floored at 0.
\<close>

definition spec_health_score :: "vehicle_state \<Rightarrow> int" where
  "spec_health_score r =
     max 0 (100 - (if 100 < engineTemp r then 20 else 0)
                - (if oilPressure r < 25 then 15 else 0)
                - (if batteryVoltage r < 12 then 10 else 0)
                - int (length (diagnosticCodes r)) * 5)"

text \<open>The table as the code applies it, with the second temperature band.\<close>

definition deduction_table :: "vehicle_state \<Rightarrow> int" where
  "deduction_table r =
     max 0 (100 - (if 100 < engineTemp r then 20 else if 90 < engineTemp r then 10 else 0)
                - (if oilPressure r < 25 then 15 else 0)
                - (if batteryVoltage r < 12 then 10 else 0)
                - int (length (diagnosticCodes r)) * 5)"

record pet_state =
  heartRate :: rat
  bodyTemp :: rat
  activityLevel :: rat
  stepsToday :: nat
  sleepQuality :: rat
  location :: "rat \<times> rat"
  pet_batteryLevel :: rat
  lastSync :: string

record pet_twin =
  pet_twinId :: string
  petId :: string
  pet_metadata :: metadata
  pet_createdAt :: string
  pet_lastUpdate :: string
  vitalData :: "(string \<times> pet_state) list"
  pet_healthScore :: int
  pet_alertCount :: nat
  pet_currentState :: pet_state

definition new_PetDigitalTwin :: "string \<Rightarrow> metadata \<Rightarrow> string \<Rightarrow> pet_state \<Rightarrow> pet_twin" where
  "new_PetDigitalTwin p md now initial =
     \<lparr> pet_twinId = ''PET-TWIN-'' @ p, petId = p, pet_metadata = md, pet_createdAt = now,
       pet_lastUpdate = now, vitalData = [], pet_healthScore = 100, pet_alertCount = 0,
       pet_currentState = initial \<rparr>"

record iot_state =
  iot_status :: string
  cpuUsage :: rat
  memoryUsage :: rat
  temperature :: rat
  networkLatency :: rat
  iot_batteryLevel :: rat
  signalStrength :: rat
  uptime :: nat
  lastHeartbeat :: string

record iot_twin =
  iot_twinId :: string
  deviceId :: string
  iot_metadata :: metadata
  iot_createdAt :: string
  iot_lastUpdate :: string
  statusData :: "(string \<times> iot_state) list"
  iot_healthScore :: int
  iot_currentState :: iot_state

definition new_IoTDeviceDigitalTwin :: "string \<Rightarrow> metadata \<Rightarrow> string \<Rightarrow> iot_state \<Rightarrow> iot_twin" where
  "new_IoTDeviceDigitalTwin d md now initial =
     \<lparr> iot_twinId = ''IOT-TWIN-'' @ d, deviceId = d, iot_metadata = md, iot_createdAt = now,
       iot_lastUpdate = now, statusData = [], iot_healthScore = 100, iot_currentState = initial \<rparr>"

section \<open>VIN validation\<close>

text \<open>The regular expression \<open>^[A-HJ-NPR-Z0-9]{17}$\<close>.\<close>

definition vinRegex_test :: "string \<Rightarrow> bool" where
  "vinRegex_test v = (length v = 17 \<and> list_all (\<lambda>c. c \<in> set ''ABCDEFGHJKLMNPRSTUVWXYZ0123456789'') v)"

definition transliteration :: "(char \<times> nat) list" where
  "transliteration =
     [ (CHR ''A'', 1), (CHR ''B'', 2), (CHR ''C'', 3), (CHR ''D'', 4), (CHR ''E'', 5), (CHR ''F'', 6),
       (CHR ''G'', 7), (CHR ''H'', 8), (CHR ''J'', 1), (CHR ''K'', 2), (CHR ''L'', 3), (CHR ''M'', 4),
       (CHR ''N'', 5), (CHR ''P'', 7), (CHR ''R'', 9), (CHR ''S'', 2), (CHR ''T'', 3), (CHR ''U'', 4),
       (CHR ''V'', 5), (CHR ''W'', 6), (CHR ''X'', 7), (CHR ''Y'', 8), (CHR ''Z'', 9) ]"

text \<open>
  The value of one character: a digit counts as itself, a letter by the table. The table has
  every letter the regular expression lets through, so the last case is never reached after
  the format test.
\<close>

definition char_value :: "char \<Rightarrow> nat" where
  "char_value c =
     (case map_of (zip ''0123456789'' [0, 1, 2, 3, 4, 5, 6, 7, 8, 9]) c of
        Some d \<Rightarrow> d
      | None \<Rightarrow> (case map_of transliteration c of Some v \<Rightarrow> v | None \<Rightarrow> 0))"

definition calculateCheckDigit :: "string \<Rightarrow> string" where
  "calculateCheckDigit v =
     (let weights = [8, 7, 6, 5, 4, 3, 2, 10, 0, 9, 8, 7, 6, 5, 4, 3, 2];
          total = sum_list (map (\<lambda>(c, w). char_value c * w) (zip (take 17 v) weights));
          remainder = total mod 11
      in if remainder = 10 then ''X'' else string_of_nat remainder)"

definition getManufacturer :: "string \<Rightarrow> string" where
  "getManufacturer v =
     (case map_of [ (''1HG'', ''Honda''), (''2HG'', ''Honda''), (''3HG'', ''Honda''),
                    (''5YJ'', ''Tesla''), (''7SA'', ''Tesla''),
                    (''WBA'', ''BMW''), (''WBS'', ''BMW''), (''WBY'', ''BMW''),
                    (''1FA'', ''Ford''), (''1FB'', ''Ford''), (''1FC'', ''Ford''),
                    (''1G1'', ''Chevrolet''), (''1G2'', ''Chevrolet'') ] (take 3 v) of
        Some m \<Rightarrow> m | None \<Rightarrow> ''Unknown'')"

definition getYear :: "string \<Rightarrow> string" where
  "getYear v =
     (case map_of [ (CHR ''A'', 2010), (CHR ''B'', 2011), (CHR ''C'', 2012), (CHR ''D'', 2013),
                    (CHR ''E'', 2014), (CHR ''F'', 2015), (CHR ''G'', 2016), (CHR ''H'', 2017),
                    (CHR ''J'', 2018), (CHR ''K'', 2019), (CHR ''L'', 2020), (CHR ''M'', 2021),
                    (CHR ''N'', 2022), (CHR ''P'', 2023), (CHR ''R'', 2024), (CHR ''S'', 2025),
                    (CHR ''T'', 2026), (CHR ''V'', 2027), (CHR ''W'', 2028), (CHR ''X'', 2029) ]
                  (v ! 9) of
        Some y \<Rightarrow> string_of_nat y | None \<Rightarrow> ''Unknown'')"

definition getRegion :: "string \<Rightarrow> string" where
  "getRegion v =
     (if v ! 0 \<in> set ''12345'' then ''North America''
      else if v ! 0 \<in> set ''SZ'' then ''Europe''
      else if v ! 0 = CHR ''J'' then ''Asia''
      else ''Unknown'')"

text \<open>
  The result of \<open>validateVIN\<close>: invalid with a reason, or valid with manufacturer, year and
  region. The indexed reads happen only after the format test has fixed the length at 17.
\<close>

datatype vin_validation = Invalid string | Valid string string string

definition validateVIN :: "string \<Rightarrow> vin_validation" where
  "validateVIN v =
     (if \<not> vinRegex_test v then Invalid ''Invalid VIN format''
      else if calculateCheckDigit v \<noteq> [v ! 8] then Invalid ''Invalid check digit''
      else Valid (getManufacturer v) (getYear v) (getRegion v))"

section \<open>The twin manager\<close>

record mqtt_message =
  messageId :: string
  clientId :: string
  topic :: string
  payload :: metadata
  message_timestamp :: string
  qos :: nat

text \<open>
  The manager owns three maps from subject id to twin and the queue of the message simulator;
  the clients the constructor registers are always present, so \<open>publish\<close> always appends.
  The coordinator is a global of the program and is passed beside the manager.
\<close>

record digital_twin_manager =
  vehicleTwins :: "string \<rightharpoonup> vehicle_twin"
  petTwins :: "string \<rightharpoonup> pet_twin"
  iotTwins :: "string \<rightharpoonup> iot_twin"
  messageQueue :: "mqtt_message list"

definition new_DigitalTwinManager :: digital_twin_manager where
  "new_DigitalTwinManager =
     \<lparr> vehicleTwins = Map.empty, petTwins = Map.empty, iotTwins = Map.empty, messageQueue = [] \<rparr>"

definition publish :: "digital_twin_manager \<Rightarrow> clock \<Rightarrow> string \<Rightarrow> string \<Rightarrow> metadata \<Rightarrow> digital_twin_manager" where
  "publish this clk cl tp msg =
     this\<lparr>messageQueue := messageQueue this @
            [\<lparr> messageId = ''msg-'' @ string_of_nat (endNow clk), clientId = cl, topic = tp,
               payload = msg, message_timestamp = isoNow clk, qos = 1 \<rparr>]\<rparr>"

definition createPetTwin ::
  "digital_twin_manager \<Rightarrow> multi_agent_coordinator \<Rightarrow> clock \<Rightarrow> (identity_agent \<Rightarrow> string + evaluation)
     \<Rightarrow> pet_state \<Rightarrow> string \<Rightarrow> metadata
     \<Rightarrow> (js_error + pet_twin) \<times> digital_twin_manager \<times> multi_agent_coordinator" where
  "createPetTwin this coordinator clk dispatch initial p md =
     (let (coordinationResult, coordinator') =
            coordinateIdentityDecision coordinator clk dispatch
              \<lparr> data_id = ''PET-TWIN-'' @ p, data_type = ''pet-twin'',
                data_metadata = Some ((''petId'', p) # md) \<rparr>
      in if \<not> strict_equals_string (get_finalDecision coordinationResult) ''APPROVED''
         then (Inl (Error ''Pet twin creation rejected by multi-agent consensus''), this, coordinator')
         else (let petTwin = new_PetDigitalTwin p md (isoNow clk) initial;
                   stored = this\<lparr>petTwins := (petTwins this)(p \<mapsto> petTwin)\<rparr>
               in (Inr petTwin,
                   publish stored clk ''pet-collar-hub'' ''pet/twin/created''
                     [(''petId'', p), (''twinId'', pet_twinId petTwin), (''timestamp'', isoNow clk)],
                   coordinator')))"

definition createIoTTwin ::
  "digital_twin_manager \<Rightarrow> multi_agent_coordinator \<Rightarrow> clock \<Rightarrow> (identity_agent \<Rightarrow> string + evaluation)
     \<Rightarrow> iot_state \<Rightarrow> string \<Rightarrow> metadata
     \<Rightarrow> (js_error + iot_twin) \<times> digital_twin_manager \<times> multi_agent_coordinator" where
  "createIoTTwin this coordinator clk dispatch initial d md =
     (let (coordinationResult, coordinator') =
            coordinateIdentityDecision coordinator clk dispatch
              \<lparr> data_id = ''IOT-TWIN-'' @ d, data_type = ''iot-twin'',
                data_metadata = Some ((''deviceId'', d) # md) \<rparr>
      in if \<not> strict_equals_string (get_finalDecision coordinationResult) ''APPROVED''
         then (Inl (Error ''IoT twin creation rejected by multi-agent consensus''), this, coordinator')
         else (let iotTwin = new_IoTDeviceDigitalTwin d md (isoNow clk) initial;
                   stored = this\<lparr>iotTwins := (iotTwins this)(d \<mapsto> iotTwin)\<rparr>
               in (Inr iotTwin,
                   publish stored clk ''iot-device-manager'' ''iot/twin/created''
                     [(''deviceId'', d), (''twinId'', iot_twinId iotTwin), (''timestamp'', isoNow clk)],
                   coordinator')))"

definition createDigitalTwin ::
  "digital_twin_manager \<Rightarrow> multi_agent_coordinator \<Rightarrow> clock \<Rightarrow> (identity_agent \<Rightarrow> string + evaluation)
     \<Rightarrow> vehicle_state \<Rightarrow> string \<Rightarrow> metadata
     \<Rightarrow> (js_error + vehicle_twin) \<times> digital_twin_manager \<times> multi_agent_coordinator" where
  "createDigitalTwin this coordinator clk dispatch initial v md =
     (case validateVIN v of
        Invalid reason \<Rightarrow> (Inl (Error (''Invalid VIN: '' @ reason)), this, coordinator)
      | Valid manufacturer year region \<Rightarrow>
          (let (coordinationResult, coordinator') =
                 coordinateIdentityDecision coordinator clk dispatch
                   \<lparr> data_id = ''TWIN-'' @ v, data_type = ''vehicle-twin'',
                     data_metadata = Some ((''vin'', v) # md) \<rparr>
           in if \<not> strict_equals_string (get_finalDecision coordinationResult) ''APPROVED''
              then (Inl (Error ''Digital twin creation rejected by multi-agent consensus''), this, coordinator')
              else (let enhancedMetadata =
                          md @ [(''valid'', ''true''), (''manufacturer'', manufacturer),
                                (''year'', year), (''region'', region)];
                        digitalTwin = new_VehicleDigitalTwin v enhancedMetadata (isoNow clk) initial;
                        stored = this\<lparr>vehicleTwins := (vehicleTwins this)(v \<mapsto> digitalTwin)\<rparr>
                    in (Inr digitalTwin,
                        publish stored clk ''vehicle-gateway-001'' ''vehicle/twin/created''
                          [(''vin'', v), (''twinId'', twinId digitalTwin), (''timestamp'', isoNow clk)],
                        coordinator'))))"

section \<open>Sequences of operations\<close>

text \<open>
  What a program run does to the coordinator: it asks for decisions, and the attack
  simulation sets and later clears the Byzantine flag of one agent; \<open>updateStatus\<close> changes
  the status of an agent. The run returns the final coordinator and the results the decisions
  returned, in order.
\<close>

datatype coordinator_op =
    Decide clock "identity_agent \<Rightarrow> string + evaluation" identity_data
  | SetByzantine nat bool
  | UpdateStatus nat string

definition update_agent ::
  "nat \<Rightarrow> (identity_agent \<Rightarrow> identity_agent) \<Rightarrow> multi_agent_coordinator \<Rightarrow> multi_agent_coordinator" where
  "update_agent k f c = (if k < length (agents c) then c\<lparr>agents := (agents c)[k := f (agents c ! k)]\<rparr> else c)"

fun run_coordinator ::
  "multi_agent_coordinator \<Rightarrow> coordinator_op list \<Rightarrow> multi_agent_coordinator \<times> coordination_result list" where
  "run_coordinator c [] = (c, [])"
| "run_coordinator c (Decide clk dispatch identityData # ops) =
     (let step = coordinateIdentityDecision c clk dispatch identityData;
          rest = run_coordinator (snd step) ops
      in (fst rest, fst step # snd rest))"
| "run_coordinator c (SetByzantine k b # ops) =
     run_coordinator (update_agent k (\<lambda>a. a\<lparr>agent_isByzantine := b\<rparr>) c) ops"
| "run_coordinator c (UpdateStatus k st # ops) =
     run_coordinator (update_agent k (\<lambda>a. a\<lparr>status := st\<rparr>) c) ops"

fun is_failure :: "coordination_result \<Rightarrow> bool" where
  "is_failure (Failure f) = True"
| "is_failure (Session s) = False"

fun sessions_of :: "coordination_result list \<Rightarrow> coordination_session list" where
  "sessions_of [] = []"
| "sessions_of (Session s # rs) = s # sessions_of rs"
| "sessions_of (Failure f # rs) = sessions_of rs"

text \<open>
  The engine explains a list of results, each at its own time; a call that throws stores
  nothing. The run returns the final engine and the explanations returned, in order.
\<close>

fun run_engine ::
  "explainable_decision_engine \<Rightarrow> (string \<times> coordination_result) list
     \<Rightarrow> explainable_decision_engine \<times> explanation list" where
  "run_engine e [] = (e, [])"
| "run_engine e ((now, r) # calls) =
     (case explainCoordination e now r of
        Inl err \<Rightarrow> run_engine e calls
      | Inr step \<Rightarrow> (let rest = run_engine (snd step) calls in (fst rest, fst step # snd rest)))"

section \<open>Concrete inputs\<close>

definition demo_clock :: clock where
  "demo_clock = \<lparr> startNow = 1000, idNow = 1000, isoNow = ''2025-01-01T00:00:00.000Z'', endNow = 1120 \<rparr>"

definition demo_draws :: draws where
  "demo_draws = \<lparr> byzantineRoll = 1 / 10, confidenceRoll = 1 / 2, securityRoll = 1 / 2, duplicateRoll = 1 / 2 \<rparr>"

definition demo_identity :: identity_data where
  "demo_identity = \<lparr> data_id = ''VEH-000001'', data_type = ''vehicle'', data_metadata = None \<rparr>"

text \<open>Every agent answers as \<open>evaluateIdentity\<close> does with the draws above.\<close>

definition demo_dispatch :: "identity_data \<Rightarrow> identity_agent \<Rightarrow> string + evaluation" where
  "demo_dispatch identityData a = Inr (evaluateIdentity a identityData demo_draws ''2025-01-01T00:00:00.050Z'')"

text \<open>The roster of the constructor with every agent taken offline.\<close>

definition all_agents_offline :: multi_agent_coordinator where
  "all_agents_offline =
     new_MultiAgentCoordinator
       \<lparr>agents := map (\<lambda>a. a\<lparr>status := ''offline''\<rparr>) (agents new_MultiAgentCoordinator)\<rparr>"

text \<open>The roster of the constructor with the security agent flagged Byzantine.\<close>

definition security_agent_byzantine :: multi_agent_coordinator where
  "security_agent_byzantine = update_agent 2 (\<lambda>a. a\<lparr>agent_isByzantine := True\<rparr>) new_MultiAgentCoordinator"

text \<open>A vehicle reading whose only remarkable value is an engine temperature of 95.\<close>

definition warm_reading :: vehicle_state where
  "warm_reading =
     \<lparr> engineTemp = 95, oilPressure = 40, batteryVoltage = 125 / 10, fuelLevel = 50, mileage = 45000,
       rpm = 800, speed = 0, gpsLocation = (444949 / 10000, 113426 / 10000), diagnosticCodes = [],
       lastPing = ''2025-01-01T00:00:00.000Z'' \<rparr>"

definition warm_twin :: vehicle_twin where
  "warm_twin = new_VehicleDigitalTwin ''1HGCM82633A004352'' [] ''2025-01-01T00:00:00.000Z'' warm_reading"

text \<open>
  The session the constructor's roster returns for the identity above when every agent answers
  normally.
\<close>

definition approved_session :: coordination_session where
  "approved_session =
     \<lparr> coordinationId = ''coord-1000'',
       identityId = ''VEH-000001'',
       session_timestamp = ''2025-01-01T00:00:00.000Z'',
       participatingAgents = 3,
       agentEvaluations =
         map (\<lambda>a. generateResponse a demo_identity demo_draws ''2025-01-01T00:00:00.050Z'')
             (agents new_MultiAgentCoordinator),
       consensus =
         \<lparr> approvals = 3, rejections = 0, totalAgents = 3, consensusRatio = Num 1,
           consensusAchieved = True, averageConfidence = Num (9 / 10),
           averageSecurityScore = Num (17 / 20), recommendedDecision = ''APPROVED'' \<rparr>,
       session_finalDecision =
         \<lparr> spread_consensus =
             \<lparr> approvals = 3, rejections = 0, totalAgents = 3, consensusRatio = Num 1,
               consensusAchieved = True, averageConfidence = Num (9 / 10),
               averageSecurityScore = Num (17 / 20), recommendedDecision = ''APPROVED'' \<rparr>,
           byzantineFaultHandling =
             \<lparr> byzantineAgentsDetected = 0, byzantineAgentIds = None, originalDecision = None,
               correctedDecision = None, faultTolerant = True \<rparr>,
           finalDecision = ''APPROVED'' \<rparr>,
       processingTime = 120,
       byzantineDetected = False \<rparr>"

text \<open>
  The session returned when the security agent is Byzantine and answers maliciously: two
  approvals out of three.
\<close>

definition corrected_session :: coordination_session where
  "corrected_session =
     \<lparr> coordinationId = ''coord-1000'',
       identityId = ''VEH-000001'',
       session_timestamp = ''2025-01-01T00:00:00.000Z'',
       participatingAgents = 3,
       agentEvaluations =
         map (\<lambda>a. evaluateIdentity a demo_identity demo_draws ''2025-01-01T00:00:00.050Z'')
             (agents security_agent_byzantine),
       consensus =
         \<lparr> approvals = 2, rejections = 1, totalAgents = 3, consensusRatio = Num (2 / 3),
           consensusAchieved = False, averageConfidence = Num (2 / 3),
           averageSecurityScore = Num (3 / 5), recommendedDecision = ''REJECTED'' \<rparr>,
       session_finalDecision =
         \<lparr> spread_consensus =
             \<lparr> approvals = 2, rejections = 1, totalAgents = 3, consensusRatio = Num (2 / 3),
               consensusAchieved = False, averageConfidence = Num (2 / 3),
               averageSecurityScore = Num (3 / 5), recommendedDecision = ''REJECTED'' \<rparr>,
           byzantineFaultHandling =
             \<lparr> byzantineAgentsDetected = 1, byzantineAgentIds = Some [''agent-security-003''],
               originalDecision = Some ''REJECTED'', correctedDecision = Some ''APPROVED'',
               faultTolerant = True \<rparr>,
           finalDecision = ''APPROVED'' \<rparr>,
       processingTime = 120,
       byzantineDetected = True \<rparr>"

text \<open>The roster with the consensus agent and the security agent both Byzantine.\<close>

definition two_byzantine :: multi_agent_coordinator where
  "two_byzantine = update_agent 1 (\<lambda>a. a\<lparr>agent_isByzantine := True\<rparr>) security_agent_byzantine"

text \<open>The session that roster returns: one approval out of three, two malicious answers.\<close>

definition hostile_session :: coordination_session where
  "hostile_session =
     \<lparr> coordinationId = ''coord-1000'',
       identityId = ''VEH-000001'',
       session_timestamp = ''2025-01-01T00:00:00.000Z'',
       participatingAgents = 3,
       agentEvaluations =
         map (\<lambda>a. evaluateIdentity a demo_identity demo_draws ''2025-01-01T00:00:00.050Z'')
             (agents two_byzantine),
       consensus =
         \<lparr> approvals = 1, rejections = 2, totalAgents = 3, consensusRatio = Num (1 / 3),
           consensusAchieved = False, averageConfidence = Num (13 / 30),
           averageSecurityScore = Num (7 / 20), recommendedDecision = ''REJECTED'' \<rparr>,
       session_finalDecision =
         \<lparr> spread_consensus =
             \<lparr> approvals = 1, rejections = 2, totalAgents = 3, consensusRatio = Num (1 / 3),
               consensusAchieved = False, averageConfidence = Num (13 / 30),
               averageSecurityScore = Num (7 / 20), recommendedDecision = ''REJECTED'' \<rparr>,
           byzantineFaultHandling =
             \<lparr> byzantineAgentsDetected = 2,
               byzantineAgentIds = Some [''agent-consensus-002'', ''agent-security-003''],
               originalDecision = Some ''REJECTED'', correctedDecision = Some ''APPROVED'',
               faultTolerant = True \<rparr>,
           finalDecision = ''APPROVED'' \<rparr>,
       processingTime = 120,
       byzantineDetected = True \<rparr>"

text \<open>The identity request \<open>createPetTwin\<close> builds for the pet \<open>PET-1\<close> with empty metadata.\<close>

definition pet_identity :: identity_data where
  "pet_identity = \<lparr> data_id = ''PET-TWIN-PET-1'', data_type = ''pet-twin'',
                    data_metadata = Some [(''petId'', ''PET-1'')] \<rparr>"

text \<open>A coordinator whose history is full, and an engine whose history is full.\<close>

definition full_coordinator :: multi_agent_coordinator where
  "full_coordinator = new_MultiAgentCoordinator\<lparr>coordinationHistory := replicate 50 corrected_session\<rparr>"

definition old_explanation :: explanation where
  "old_explanation =
     \<lparr> explanation_coordinationId = ''coord-999'', explanation_timestamp = ''2024-12-31T23:59:59.000Z'',
       confidenceBreakdown = \<lparr> overall = Num (9 / 10), byAgent = [], methodology = ''Weighted average by agent specialization'' \<rparr>,
       anomalyScore = 0 \<rparr>"

definition full_engine :: explainable_decision_engine where
  "full_engine = new_ExplainableDecisionEngine\<lparr>decisionHistory := replicate 100 old_explanation\<rparr>"

text \<open>
  A roster of one agent whose specialization is the string \<open>constructor\<close>, and the session
  it returns for the identity above.
\<close>

definition prototype_named_roster :: multi_agent_coordinator where
  "prototype_named_roster =
     new_MultiAgentCoordinator
       \<lparr>agents := [\<lparr> agent_agentId = ''agent-custom-004'', agent_specialization = ''constructor'',
                     status = ''online'', agent_isByzantine = False \<rparr>]\<rparr>"

definition prototype_named_session :: coordination_session where
  "prototype_named_session =
     \<lparr> coordinationId = ''coord-1000'',
       identityId = ''VEH-000001'',
       session_timestamp = ''2025-01-01T00:00:00.000Z'',
       participatingAgents = 1,
       agentEvaluations =
         map (\<lambda>a. evaluateIdentity a demo_identity demo_draws ''2025-01-01T00:00:00.050Z'')
             (agents prototype_named_roster),
       consensus =
         \<lparr> approvals = 1, rejections = 0, totalAgents = 1, consensusRatio = Num 1,
           consensusAchieved = True, averageConfidence = Num (9 / 10),
           averageSecurityScore = Num (17 / 20), recommendedDecision = ''APPROVED'' \<rparr>,
       session_finalDecision =
         \<lparr> spread_consensus =
             \<lparr> approvals = 1, rejections = 0, totalAgents = 1, consensusRatio = Num 1,
               consensusAchieved = True, averageConfidence = Num (9 / 10),
               averageSecurityScore = Num (17 / 20), recommendedDecision = ''APPROVED'' \<rparr>,
           byzantineFaultHandling =
             \<lparr> byzantineAgentsDetected = 0, byzantineAgentIds = None, originalDecision = None,
               correctedDecision = None, faultTolerant = True \<rparr>,
           finalDecision = ''APPROVED'' \<rparr>,
       processingTime = 120,
       byzantineDetected = False \<rparr>"

section \<open>Consensus\<close>

lemmas coord_defs = coordinateIdentityDecision_def calculateConsensus_def handleByzantineFaults_def
  js_div_def Let_def

lemmas agent_defs = evaluateIdentity_def generateResponse_def generateByzantineResponse_def

text \<open>
  Claim C1. The specification puts the threshold at two thirds, so that two approvals out of
  three evaluations achieve consensus; the constructor's comment says the same (``2/3
  majority''). The constant it stores is 0.67, which is more than 2/3. For any two normal
  responses and one malicious response, whatever the agents, the identity and the draws, the
  ratio is exactly 2/3, consensus is not achieved and the recommendation is REJECTED.
\<close>

theorem two_of_three_approvals_rejected:
  "consensusRatio (calculateConsensus new_MultiAgentCoordinator
       [generateResponse a1 i d1 t1, generateResponse a2 i d2 t2, generateByzantineResponse a3 t3]) = Num (2 / 3)
   \<and> approvals (calculateConsensus new_MultiAgentCoordinator
       [generateResponse a1 i d1 t1, generateResponse a2 i d2 t2, generateByzantineResponse a3 t3]) = 2
   \<and> consensusAchieved (calculateConsensus new_MultiAgentCoordinator
       [generateResponse a1 i d1 t1, generateResponse a2 i d2 t2, generateByzantineResponse a3 t3]) = False
   \<and> recommendedDecision (calculateConsensus new_MultiAgentCoordinator
       [generateResponse a1 i d1 t1, generateResponse a2 i d2 t2, generateByzantineResponse a3 t3]) = ''REJECTED''"
  by (simp add: coord_defs agent_defs new_MultiAgentCoordinator_def)

text \<open>
  Claim C6, as stated: for every evaluation list the ratio lies between 0 and 1. For the empty
  list, which is what the coordinator passes when no agent is online, the ratio is \<open>0 / 0\<close>,
  that is \<open>NaN\<close>, and neither comparison holds.
\<close>

theorem empty_consensus_ratio_counterexample:
  "\<not> (js_ge (consensusRatio (calculateConsensus new_MultiAgentCoordinator [])) 0
      \<and> js_le (consensusRatio (calculateConsensus new_MultiAgentCoordinator [])) 1)"
  by (simp add: coord_defs)

text \<open>
  Claim C6, amended: for every evaluation list, approvals plus rejections equal the total,
  which is the length of the list; for every non-empty list the ratio lies between 0 and 1;
  for the empty list the ratio is \<open>NaN\<close>.
\<close>

theorem consensus_counts_and_ratio:
  "approvals (calculateConsensus this evaluations) + rejections (calculateConsensus this evaluations)
     = totalAgents (calculateConsensus this evaluations)
   \<and> totalAgents (calculateConsensus this evaluations) = length evaluations
   \<and> (evaluations \<noteq> [] \<longrightarrow>
        js_ge (consensusRatio (calculateConsensus this evaluations)) 0
      \<and> js_le (consensusRatio (calculateConsensus this evaluations)) 1)
   \<and> (evaluations = [] \<longrightarrow> consensusRatio (calculateConsensus this evaluations) = NaN)"
  by (simp add: coord_defs divide_le_eq_1)

theorem consensus_counts_and_ratio_witness:
  "[generateByzantineResponse (hd (agents new_MultiAgentCoordinator)) ''t''] \<noteq> []
   \<and> js_ge (consensusRatio (calculateConsensus new_MultiAgentCoordinator
        [generateByzantineResponse (hd (agents new_MultiAgentCoordinator)) ''t''])) 0
   \<and> js_le (consensusRatio (calculateConsensus new_MultiAgentCoordinator
        [generateByzantineResponse (hd (agents new_MultiAgentCoordinator)) ''t''])) 1
   \<and> consensusRatio (calculateConsensus new_MultiAgentCoordinator []) = NaN"
  using consensus_counts_and_ratio [of new_MultiAgentCoordinator
          "[generateByzantineResponse (hd (agents new_MultiAgentCoordinator)) ''t'']"]
        consensus_counts_and_ratio [of new_MultiAgentCoordinator "[]"]
  by simp

section \<open>Coordination sessions\<close>

lemma string_of_nat_1000: "string_of_nat 1000 = ''1000''"
  by (simp add: string_of_nat.simps digit_char_def)

lemma approved_run:
  "fst (coordinateIdentityDecision new_MultiAgentCoordinator demo_clock (demo_dispatch demo_identity) demo_identity)
     = Session approved_session"
  by (simp add: coord_defs agent_defs new_MultiAgentCoordinator_def demo_clock_def demo_dispatch_def
        demo_draws_def demo_identity_def approved_session_def string_of_nat_1000)

lemma corrected_run:
  "fst (coordinateIdentityDecision security_agent_byzantine demo_clock (demo_dispatch demo_identity) demo_identity)
     = Session corrected_session"
  by (simp add: coord_defs agent_defs new_MultiAgentCoordinator_def demo_clock_def demo_dispatch_def
        demo_draws_def demo_identity_def corrected_session_def string_of_nat_1000
        security_agent_byzantine_def update_agent_def)

lemma hostile_run:
  "fst (coordinateIdentityDecision two_byzantine demo_clock (demo_dispatch demo_identity) demo_identity)
     = Session hostile_session"
  by (simp add: coord_defs agent_defs new_MultiAgentCoordinator_def demo_clock_def demo_dispatch_def
        demo_draws_def demo_identity_def hostile_session_def string_of_nat_1000
        security_agent_byzantine_def two_byzantine_def update_agent_def)

lemma promise_all_isl: "isl (promise_all rs) = list_ex isl rs"
  by (induction rs rule: promise_all.induct) (auto split: sum.splits)

lemma promise_all_Inl: "promise_all rs = Inl e \<Longrightarrow> list_ex (\<lambda>r. r = Inl e) rs"
  by (induction rs rule: promise_all.induct) (auto split: sum.splits)

lemma promise_all_Inr: "promise_all rs = Inr vs \<Longrightarrow> map Inr vs = rs"
  by (induction rs arbitrary: vs rule: promise_all.induct) (auto split: sum.splits)

lemma coordinate_session:
  assumes "fst (coordinateIdentityDecision this clk dispatch identityData) = Session s"
  shows "consensus s = calculateConsensus this (agentEvaluations s)"
    and "session_finalDecision s = handleByzantineFaults this (consensus s) (agentEvaluations s)"
    and "byzantineDetected s = list_ex isByzantine (agentEvaluations s)"
    and "participatingAgents s = length (agentEvaluations s)"
    and "map Inr (agentEvaluations s) = map dispatch (filter (\<lambda>a. status a = ''online'') (agents this))"
  using assms
  by (auto simp: coordinateIdentityDecision_def Let_def split: sum.splits dest: promise_all_Inr)

lemma not_approved_string: "\<not> strict_equals_string (get_finalDecision r) ''APPROVED''"
  by (cases r) simp_all

text \<open>
  Claim C3. Whenever \<open>coordinateIdentityDecision\<close> returns a session, the field
  \<open>finalDecision\<close> of that session is the object \<open>handleByzantineFaults\<close> built from the
  consensus and the evaluations of the session: it spreads the consensus and nests the decision
  string. It is never a string, so for every input, whether the call returns a session or the
  object of the \<open>catch\<close> branch, the strict comparison of that field with the string
  \<open>'APPROVED'\<close> is false.
\<close>

theorem session_finalDecision_is_object:
  "(fst (coordinateIdentityDecision this clk dispatch identityData) = Session s \<longrightarrow>
      session_finalDecision s
        = handleByzantineFaults this (calculateConsensus this (agentEvaluations s)) (agentEvaluations s)
    \<and> spread_consensus (session_finalDecision s) = consensus s
    \<and> get_finalDecision (Session s) = JSObject (session_finalDecision s))
   \<and> \<not> strict_equals_string
         (get_finalDecision (fst (coordinateIdentityDecision this clk dispatch identityData))) ''APPROVED''"
proof -
  have "\<not> strict_equals_string (get_finalDecision r) ''APPROVED''" for r
    by (cases r) simp_all
  moreover have "spread_consensus (handleByzantineFaults this c evs) = c" for c evs
    by (simp add: handleByzantineFaults_def Let_def)
  ultimately show ?thesis
    by (auto simp: coordinate_session)
qed

theorem session_finalDecision_is_object_witness:
  "fst (coordinateIdentityDecision new_MultiAgentCoordinator demo_clock (demo_dispatch demo_identity) demo_identity)
     = Session approved_session
   \<and> finalDecision (session_finalDecision approved_session) = ''APPROVED''
   \<and> get_finalDecision (Session approved_session) = JSObject (session_finalDecision approved_session)
   \<and> \<not> strict_equals_string (get_finalDecision (Session approved_session)) ''APPROVED''"
proof -
  note run = approved_run
  from session_finalDecision_is_object [of new_MultiAgentCoordinator demo_clock
          "demo_dispatch demo_identity" demo_identity approved_session] run
  have obj: "get_finalDecision (Session approved_session) = JSObject (session_finalDecision approved_session)"
    and neq: "\<not> strict_equals_string (get_finalDecision (Session approved_session)) ''APPROVED''"
    by simp_all
  have "finalDecision (session_finalDecision approved_session) = ''APPROVED''"
    by (simp add: approved_session_def)
  with run obj neq show ?thesis by blast
qed

text \<open>
  Claim C4. For every session the coordinator returns (its evaluation list non-empty or not):
  when some evaluation is flagged Byzantine, the decision string of the session is the
  recommendation of the consensus recomputed over the unflagged evaluations, the number of
  detected agents is the number of flagged evaluations, and the session records the flagged
  agent ids, the original and the corrected recommendation and the fault-tolerance marker;
  when none is flagged, the decision string is the original recommendation and the number of
  detected agents is 0.
\<close>

theorem byzantine_correction:
  "fst (coordinateIdentityDecision this clk dispatch identityData) = Session s \<Longrightarrow>
     (list_ex isByzantine (agentEvaluations s) \<longrightarrow>
        finalDecision (session_finalDecision s)
          = recommendedDecision (calculateConsensus this (filter (\<lambda>e. \<not> isByzantine e) (agentEvaluations s)))
      \<and> byzantineAgentsDetected (byzantineFaultHandling (session_finalDecision s))
          = length (filter isByzantine (agentEvaluations s))
      \<and> byzantineAgentIds (byzantineFaultHandling (session_finalDecision s))
          = Some (map agentId (filter isByzantine (agentEvaluations s)))
      \<and> originalDecision (byzantineFaultHandling (session_finalDecision s))
          = Some (recommendedDecision (calculateConsensus this (agentEvaluations s)))
      \<and> correctedDecision (byzantineFaultHandling (session_finalDecision s))
          = Some (recommendedDecision (calculateConsensus this (filter (\<lambda>e. \<not> isByzantine e) (agentEvaluations s))))
      \<and> faultTolerant (byzantineFaultHandling (session_finalDecision s))
      \<and> byzantineDetected s)
   \<and> (\<not> list_ex isByzantine (agentEvaluations s) \<longrightarrow>
        finalDecision (session_finalDecision s) = recommendedDecision (calculateConsensus this (agentEvaluations s))
      \<and> byzantineAgentsDetected (byzantineFaultHandling (session_finalDecision s)) = 0
      \<and> faultTolerant (byzantineFaultHandling (session_finalDecision s))
      \<and> \<not> byzantineDetected s)"
proof -
  assume run: "fst (coordinateIdentityDecision this clk dispatch identityData) = Session s"
  have ex: "list_ex isByzantine evs = (0 < length (filter isByzantine evs))" for evs :: "evaluation list"
    by (induction evs) auto
  show ?thesis
    unfolding coordinate_session(1,2,3) [OF run] ex
    by (simp add: handleByzantineFaults_def Let_def)
qed

theorem byzantine_correction_witness:
  "fst (coordinateIdentityDecision security_agent_byzantine demo_clock (demo_dispatch demo_identity) demo_identity)
     = Session corrected_session
   \<and> list_ex isByzantine (agentEvaluations corrected_session)
   \<and> finalDecision (session_finalDecision corrected_session)
       = recommendedDecision (calculateConsensus security_agent_byzantine
           (filter (\<lambda>e. \<not> isByzantine e) (agentEvaluations corrected_session)))
   \<and> finalDecision (session_finalDecision corrected_session) = ''APPROVED''
   \<and> recommendedDecision (consensus corrected_session) = ''REJECTED''
   \<and> byzantineAgentsDetected (byzantineFaultHandling (session_finalDecision corrected_session)) = 1"
proof -
  note run = corrected_run
  have byz: "list_ex isByzantine (agentEvaluations corrected_session)"
    by (simp add: corrected_session_def agent_defs security_agent_byzantine_def update_agent_def
          new_MultiAgentCoordinator_def demo_draws_def)
  from byzantine_correction [OF run] byz
  have "finalDecision (session_finalDecision corrected_session)
       = recommendedDecision (calculateConsensus security_agent_byzantine
           (filter (\<lambda>e. \<not> isByzantine e) (agentEvaluations corrected_session)))"
    by blast
  moreover have "finalDecision (session_finalDecision corrected_session) = ''APPROVED''"
    "recommendedDecision (consensus corrected_session) = ''REJECTED''"
    "byzantineAgentsDetected (byzantineFaultHandling (session_finalDecision corrected_session)) = 1"
    by (simp_all add: corrected_session_def)
  ultimately show ?thesis using run byz by blast
qed

text \<open>
  Claim C5, as stated: the call fails when all agents are offline and then returns an object
  carrying an error description. With every agent offline nothing is dispatched,
  \<open>Promise.all\<close> of the empty list fulfils, and the call returns an ordinary session.
\<close>

theorem all_offline_is_not_a_failure_counterexample:
  "\<not> is_failure (fst (coordinateIdentityDecision all_agents_offline demo_clock
                        (demo_dispatch demo_identity) demo_identity))"
  by (simp add: coordinateIdentityDecision_def Let_def all_agents_offline_def new_MultiAgentCoordinator_def)

text \<open>
  Claim C5, amended. The call always returns a value. It returns the object of the \<open>catch\<close>
  branch exactly when the evaluation of some online agent rejects; that object carries the
  message of such a rejection (beside the coordination id, the timestamp and the processing
  time; it has no count of participating agents), and the coordinator is left as it was. In
  every other case, the one where no agent is online included, it returns a normal session
  whose evaluations are the answers of the online agents in roster order and whose number of
  participating agents is the number of online agents, zero exactly when none is online.
\<close>

theorem coordination_fails_iff_dispatch_rejects:
  "is_failure (fst (coordinateIdentityDecision this clk dispatch identityData))
     = list_ex (\<lambda>a. isl (dispatch a)) (filter (\<lambda>a. status a = ''online'') (agents this))
   \<and> (case fst (coordinateIdentityDecision this clk dispatch identityData) of
        Failure f \<Rightarrow>
          list_ex (\<lambda>a. dispatch a = Inl (error f)) (filter (\<lambda>a. status a = ''online'') (agents this))
          \<and> snd (coordinateIdentityDecision this clk dispatch identityData) = this
      | Session s \<Rightarrow>
          participatingAgents s = length (filter (\<lambda>a. status a = ''online'') (agents this))
          \<and> map Inr (agentEvaluations s) = map dispatch (filter (\<lambda>a. status a = ''online'') (agents this))
          \<and> (participatingAgents s = 0) = (filter (\<lambda>a. status a = ''online'') (agents this) = []))"
proof -
  let ?online = "filter (\<lambda>a. status a = ''online'') (agents this)"
  have ex_map: "list_ex P (map dispatch xs) = list_ex (\<lambda>a. P (dispatch a)) xs" for P xs
    by (induction xs) auto
  show ?thesis
  proof (cases "promise_all (map dispatch ?online)")
    case (Inl e)
    from promise_all_Inl [OF Inl] have "list_ex (\<lambda>a. dispatch a = Inl e) ?online"
      by (simp add: ex_map)
    moreover from promise_all_isl [of "map dispatch ?online"] Inl
    have "list_ex (\<lambda>a. isl (dispatch a)) ?online"
      by (simp add: ex_map)
    ultimately show ?thesis using Inl
      by (simp add: coordinateIdentityDecision_def Let_def)
  next
    case (Inr evs)
    from promise_all_Inr [OF Inr] have m: "map Inr evs = map dispatch ?online" .
    then have len: "length evs = length ?online"
      by (metis length_map)
    from promise_all_isl [of "map dispatch ?online"] Inr
    have "\<not> list_ex (\<lambda>a. isl (dispatch a)) ?online"
      by (simp add: ex_map)
    then show ?thesis using Inr m len
      by (simp add: coordinateIdentityDecision_def Let_def)
  qed
qed

section \<open>Twin creation\<close>

text \<open>
  Claim C2. The three creation functions compare the field \<open>finalDecision\<close> of the
  coordination result, which is an object, with the string \<open>'APPROVED'\<close>; elsewhere
  (\<open>generateSummary\<close>, \<open>generateMLFeatures\<close>) the program reads the nested string first.
  With the roster of the constructor and three normal answers the decision of the session is
  APPROVED, and yet \<open>createPetTwin\<close> for \<open>PET-1\<close> fails with the rejection error and
  stores no twin. The same holds for every input: each creation function returns an error and
  leaves the manager as it was.
\<close>

theorem twin_creation_always_rejected:
  "(case fst (coordinateIdentityDecision new_MultiAgentCoordinator clk (demo_dispatch pet_identity) pet_identity) of
      Session s \<Rightarrow> finalDecision (session_finalDecision s) = ''APPROVED''
                   \<and> recommendedDecision (consensus s) = ''APPROVED''
    | Failure f \<Rightarrow> False)
   \<and> fst (createPetTwin new_DigitalTwinManager new_MultiAgentCoordinator clk (demo_dispatch pet_identity)
             initial ''PET-1'' [])
       = Inl (Error ''Pet twin creation rejected by multi-agent consensus'')
   \<and> petTwins (fst (snd (createPetTwin new_DigitalTwinManager new_MultiAgentCoordinator clk
                            (demo_dispatch pet_identity) initial ''PET-1'' []))) ''PET-1'' = None
   \<and> fst (createPetTwin m c k d ps p md) = Inl (Error ''Pet twin creation rejected by multi-agent consensus'')
   \<and> fst (snd (createPetTwin m c k d ps p md)) = m
   \<and> fst (createIoTTwin m c k d ds p md) = Inl (Error ''IoT twin creation rejected by multi-agent consensus'')
   \<and> fst (snd (createIoTTwin m c k d ds p md)) = m
   \<and> isl (fst (createDigitalTwin m c k d vs p md))
   \<and> fst (snd (createDigitalTwin m c k d vs p md)) = m"
proof -
  have run: "(case fst (coordinateIdentityDecision new_MultiAgentCoordinator clk (demo_dispatch pet_identity) pet_identity) of
      Session s \<Rightarrow> finalDecision (session_finalDecision s) = ''APPROVED''
                   \<and> recommendedDecision (consensus s) = ''APPROVED''
    | Failure f \<Rightarrow> False)"
    by (simp add: coord_defs agent_defs new_MultiAgentCoordinator_def demo_dispatch_def demo_draws_def)
  have pet: "fst (createPetTwin m c k d ps p md) = Inl (Error ''Pet twin creation rejected by multi-agent consensus'')
     \<and> fst (snd (createPetTwin m c k d ps p md)) = m" for m c k d ps p md
    by (simp add: createPetTwin_def not_approved_string split: prod.splits)
  have iot: "fst (createIoTTwin m c k d ds p md) = Inl (Error ''IoT twin creation rejected by multi-agent consensus'')
     \<and> fst (snd (createIoTTwin m c k d ds p md)) = m"
    by (simp add: createIoTTwin_def not_approved_string split: prod.splits)
  have veh: "isl (fst (createDigitalTwin m c k d vs p md)) \<and> fst (snd (createDigitalTwin m c k d vs p md)) = m"
    by (simp add: createDigitalTwin_def not_approved_string split: prod.splits vin_validation.splits)
  have "petTwins (fst (snd (createPetTwin new_DigitalTwinManager new_MultiAgentCoordinator clk
                            (demo_dispatch pet_identity) initial ''PET-1'' []))) ''PET-1'' = None"
    using pet by (simp add: new_DigitalTwinManager_def)
  with run pet iot veh show ?thesis by blast
qed

section \<open>Bounded histories\<close>

lemma slice_last_short: "length xs \<le> n \<Longrightarrow> slice_last n xs = xs"
  by (simp add: slice_last_def)

lemma length_slice_last: "length (slice_last n xs) \<le> n"
  by (simp add: slice_last_def)

lemma slice_last_append: "slice_last n (slice_last n xs @ ys) = slice_last n (xs @ ys)"
  by (cases "length xs \<le> n") (auto simp: slice_last_def add.commute)

lemma trim_is_slice_last: "(if n < length xs then slice_last n xs else xs) = slice_last n xs"
  by (simp add: slice_last_def)

lemma slice_last_full: "0 < n \<Longrightarrow> length h = n \<Longrightarrow> slice_last n (h @ [s]) = tl h @ [s]"
  by (cases h) (auto simp: slice_last_def)

lemma coordinate_history:
  "coordinationHistory (snd (coordinateIdentityDecision c clk dispatch identityData))
     = slice_last 50 (coordinationHistory c @ sessions_of [fst (coordinateIdentityDecision c clk dispatch identityData)])"
  if "length (coordinationHistory c) \<le> 50"
  using that
  by (auto simp: coordinateIdentityDecision_def Let_def trim_is_slice_last slice_last_short split: sum.splits)

lemma update_agent_history: "coordinationHistory (update_agent k f c) = coordinationHistory c"
  by (simp add: update_agent_def)

lemma run_coordinator_history:
  "length (coordinationHistory c) \<le> 50 \<Longrightarrow>
   coordinationHistory (fst (run_coordinator c ops))
     = slice_last 50 (coordinationHistory c @ sessions_of (snd (run_coordinator c ops)))"
proof (induction c ops rule: run_coordinator.induct)
  case (1 c)
  then show ?case by (simp add: slice_last_short)
next
  case (2 c clk dispatch identityData ops)
  let ?step = "coordinateIdentityDecision c clk dispatch identityData"
  have h: "coordinationHistory (snd ?step) = slice_last 50 (coordinationHistory c @ sessions_of [fst ?step])"
    using 2(2) by (rule coordinate_history)
  then have "length (coordinationHistory (snd ?step)) \<le> 50"
    by (simp add: length_slice_last)
  with 2(1) have "coordinationHistory (fst (run_coordinator (snd ?step) ops))
     = slice_last 50 (coordinationHistory (snd ?step) @ sessions_of (snd (run_coordinator (snd ?step) ops)))"
    by simp
  also have "\<dots> = slice_last 50 ((coordinationHistory c @ sessions_of [fst ?step]) @ sessions_of (snd (run_coordinator (snd ?step) ops)))"
    unfolding h by (rule slice_last_append)
  finally show ?case
    by (cases "fst ?step") (simp_all add: Let_def)
next
  case (3 c k b ops)
  then show ?case by (simp add: update_agent_history)
next
  case (4 c k st ops)
  then show ?case by (simp add: update_agent_history)
qed

lemma explain_history:
  "explainCoordination e now r = Inr step \<Longrightarrow>
   decisionHistory (snd step) = slice_last 100 (decisionHistory e @ [fst step])"
  by (cases r) (auto simp: Let_def trim_is_slice_last)

lemma run_engine_history:
  "length (decisionHistory e) \<le> 100 \<Longrightarrow>
   decisionHistory (fst (run_engine e calls))
     = slice_last 100 (decisionHistory e @ snd (run_engine e calls))"
proof (induction e calls rule: run_engine.induct)
  case (1 e)
  then show ?case by (simp add: slice_last_short)
next
  case (2 e now r calls)
  show ?case
  proof (cases "explainCoordination e now r")
    case (Inl err)
    with 2 show ?thesis by simp
  next
    case (Inr step)
    have h: "decisionHistory (snd step) = slice_last 100 (decisionHistory e @ [fst step])"
      using Inr by (rule explain_history)
    then have "length (decisionHistory (snd step)) \<le> 100"
      by (simp add: length_slice_last)
    with 2(2) [OF Inr] have "decisionHistory (fst (run_engine (snd step) calls))
       = slice_last 100 (decisionHistory (snd step) @ snd (run_engine (snd step) calls))"
      by simp
    also have "\<dots> = slice_last 100 ((decisionHistory e @ [fst step]) @ snd (run_engine (snd step) calls))"
      unfolding h by (rule slice_last_append)
    finally show ?thesis using Inr
      by (simp add: Let_def)
  qed
qed

text \<open>
  Claim C7. After every sequence of operations on the coordinator the constructor builds, the
  session history is the last 50 of the sessions returned so far, in the order they were
  returned, so it never holds more than 50; after every sequence of explanations on the engine
  the constructor builds, the explanation history is the last 100 of the explanations returned,
  so it never holds more than 100. One step on a full history drops its oldest entry and
  appends the new one.
\<close>

theorem histories_bounded_fifo:
  "coordinationHistory (fst (run_coordinator new_MultiAgentCoordinator ops))
     = slice_last 50 (sessions_of (snd (run_coordinator new_MultiAgentCoordinator ops)))
   \<and> length (coordinationHistory (fst (run_coordinator new_MultiAgentCoordinator ops))) \<le> 50
   \<and> decisionHistory (fst (run_engine new_ExplainableDecisionEngine calls))
     = slice_last 100 (snd (run_engine new_ExplainableDecisionEngine calls))
   \<and> length (decisionHistory (fst (run_engine new_ExplainableDecisionEngine calls))) \<le> 100
   \<and> (length (coordinationHistory c) = 50
        \<and> fst (coordinateIdentityDecision c clk dispatch identityData) = Session s \<longrightarrow>
      coordinationHistory (snd (coordinateIdentityDecision c clk dispatch identityData))
        = tl (coordinationHistory c) @ [s])
   \<and> (length (decisionHistory e) = 100 \<and> explainCoordination e now r = Inr step \<longrightarrow>
      decisionHistory (snd step) = tl (decisionHistory e) @ [fst step])"
proof -
  have c: "coordinationHistory (fst (run_coordinator new_MultiAgentCoordinator ops))
     = slice_last 50 (sessions_of (snd (run_coordinator new_MultiAgentCoordinator ops)))"
    using run_coordinator_history [of new_MultiAgentCoordinator ops]
    by (simp add: new_MultiAgentCoordinator_def)
  have e: "decisionHistory (fst (run_engine new_ExplainableDecisionEngine calls))
     = slice_last 100 (snd (run_engine new_ExplainableDecisionEngine calls))"
    using run_engine_history [of new_ExplainableDecisionEngine calls]
    by (simp add: new_ExplainableDecisionEngine_def)
  have cl: "length (coordinationHistory (fst (run_coordinator new_MultiAgentCoordinator ops))) \<le> 50"
    unfolding c by (rule length_slice_last)
  have el: "length (decisionHistory (fst (run_engine new_ExplainableDecisionEngine calls))) \<le> 100"
    unfolding e by (rule length_slice_last)
  have cs: "coordinationHistory (snd (coordinateIdentityDecision c clk dispatch identityData))
        = tl (coordinationHistory c) @ [s]"
    if "length (coordinationHistory c) = 50"
      and "fst (coordinateIdentityDecision c clk dispatch identityData) = Session s"
    using that coordinate_history [of c clk dispatch identityData]
    by (simp add: slice_last_full)
  have es: "decisionHistory (snd step) = tl (decisionHistory e) @ [fst step]"
    if "length (decisionHistory e) = 100" and "explainCoordination e now r = Inr step"
    using that explain_history [of e now r step]
    by (simp add: slice_last_full)
  from c e cl el cs es show ?thesis by blast
qed

lemma full_run:
  "fst (coordinateIdentityDecision full_coordinator demo_clock (demo_dispatch demo_identity) demo_identity)
     = Session approved_session"
  by (simp add: coord_defs agent_defs new_MultiAgentCoordinator_def demo_clock_def demo_dispatch_def
        demo_draws_def demo_identity_def approved_session_def string_of_nat_1000 full_coordinator_def)

theorem histories_bounded_fifo_witness:
  "length (coordinationHistory full_coordinator) = 50
   \<and> fst (coordinateIdentityDecision full_coordinator demo_clock (demo_dispatch demo_identity) demo_identity)
       = Session approved_session
   \<and> coordinationHistory (snd (coordinateIdentityDecision full_coordinator demo_clock
                                  (demo_dispatch demo_identity) demo_identity))
       = replicate 49 corrected_session @ [approved_session]
   \<and> length (decisionHistory full_engine) = 100
   \<and> explainCoordination full_engine ''now'' (Session approved_session)
       = Inr (projr (explainCoordination full_engine ''now'' (Session approved_session)))
   \<and> decisionHistory (snd (projr (explainCoordination full_engine ''now'' (Session approved_session))))
       = replicate 99 old_explanation
           @ [fst (projr (explainCoordination full_engine ''now'' (Session approved_session)))]"
proof -
  have l: "length (coordinationHistory full_coordinator) = 50"
    by (simp add: full_coordinator_def)
  have le: "length (decisionHistory full_engine) = 100"
    by (simp add: full_engine_def)
  have ex: "explainCoordination full_engine ''now'' (Session approved_session)
       = Inr (projr (explainCoordination full_engine ''now'' (Session approved_session)))"
    by (simp add: Let_def)
  have t: "tl (coordinationHistory full_coordinator) = replicate 49 corrected_session"
    by (simp add: full_coordinator_def tl_replicate)
  have te: "tl (decisionHistory full_engine) = replicate 99 old_explanation"
    by (simp add: full_engine_def tl_replicate)
  from histories_bounded_fifo [of "[]" "[]" full_coordinator demo_clock "demo_dispatch demo_identity"
         demo_identity approved_session full_engine "''now''" "Session approved_session"
         "projr (explainCoordination full_engine ''now'' (Session approved_session))"]
       l le ex full_run t te
  show ?thesis by simp
qed

section \<open>Explanations\<close>

lemma prototype_named_run:
  "fst (coordinateIdentityDecision prototype_named_roster demo_clock (demo_dispatch demo_identity) demo_identity)
     = Session prototype_named_session"
  by (simp add: coord_defs agent_defs new_MultiAgentCoordinator_def demo_clock_def demo_dispatch_def
        demo_draws_def demo_identity_def prototype_named_session_def string_of_nat_1000
        prototype_named_roster_def)

lemma explainCoordination_weights:
  "explainCoordination e now r = Inr step \<Longrightarrow> confidenceWeights (snd step) = confidenceWeights e"
  by (cases r) (auto simp: Let_def)

lemma run_engine_weights: "confidenceWeights (fst (run_engine e calls)) = confidenceWeights e"
proof (induction e calls rule: run_engine.induct)
  case (1 e)
  show ?case by simp
next
  case (2 e now r calls)
  show ?case
  proof (cases "explainCoordination e now r")
    case (Inl err)
    with 2(1) show ?thesis by simp
  next
    case (Inr step)
    with 2(2) [OF Inr] explainCoordination_weights [OF Inr] show ?thesis
      by (simp add: Let_def)
  qed
qed

lemma weight_of_table:
  "confidenceWeights this = confidenceWeights new_ExplainableDecisionEngine \<Longrightarrow>
   weight_of this sp = (if sp \<in> set object_prototype_names then Inherited sp else Weight (spec_weight sp))"
  by (simp add: weight_of_def new_ExplainableDecisionEngine_def spec_weight_def object_prototype_names_def)

lemma spec_weight_pos: "0 < spec_weight sp"
  by (simp add: spec_weight_def)

lemma sum_spec_weight_nonneg: "0 \<le> (\<Sum>e\<leftarrow>xs. spec_weight (specialization e))"
  by (induction xs) (simp_all add: add_nonneg_nonneg less_imp_le [OF spec_weight_pos])

lemma sum_spec_weight_pos: "xs \<noteq> [] \<Longrightarrow> 0 < (\<Sum>e\<leftarrow>xs. spec_weight (specialization e))"
  by (cases xs) (simp_all add: add_pos_nonneg spec_weight_pos sum_spec_weight_nonneg)

lemma filter_honest_empty: "(filter (\<lambda>e. \<not> isByzantine e) evs = []) = list_all isByzantine evs"
  by (induction evs) auto

lemma foldl_accumulate_numbers:
  assumes "confidenceWeights this = confidenceWeights new_ExplainableDecisionEngine"
  shows "list_all (\<lambda>e. specialization e \<notin> set object_prototype_names) (filter (\<lambda>e. \<not> isByzantine e) evs) \<Longrightarrow>
     foldl (accumulate_confidence this) (Num a, Summed b) evs
       = (Num (a + (\<Sum>e\<leftarrow>filter (\<lambda>e. \<not> isByzantine e) evs. confidence e * spec_weight (specialization e))),
          Summed (b + (\<Sum>e\<leftarrow>filter (\<lambda>e. \<not> isByzantine e) evs. spec_weight (specialization e))))"
proof (induction evs arbitrary: a b)
  case Nil
  then show ?case by simp
next
  case (Cons e evs)
  show ?case
  proof (cases "isByzantine e")
    case True
    with Cons show ?thesis
      by (simp add: accumulate_confidence_def)
  next
    case False
    with Cons.prems have outside: "specialization e \<notin> set object_prototype_names"
      and rest: "list_all (\<lambda>e. specialization e \<notin> set object_prototype_names)
                   (filter (\<lambda>e. \<not> isByzantine e) evs)"
      by simp_all
    from Cons.IH [OF rest] False outside show ?thesis
      by (simp add: accumulate_confidence_def weight_of_table [OF assms] algebra_simps)
  qed
qed

lemma add_weight_Inherited: "add_weight tot (Inherited n) = Concatenated"
  by (cases tot) simp_all

lemma foldl_accumulate_text: "snd (foldl (accumulate_confidence this) (x, Concatenated) evs) = Concatenated"
  by (induction evs arbitrary: x) (simp_all add: accumulate_confidence_def)

lemma foldl_accumulate_inherited:
  assumes "confidenceWeights this = confidenceWeights new_ExplainableDecisionEngine"
  shows "list_ex (\<lambda>e. specialization e \<in> set object_prototype_names) (filter (\<lambda>e. \<not> isByzantine e) evs) \<Longrightarrow>
     snd (foldl (accumulate_confidence this) (x, tot) evs) = Concatenated"
proof (induction evs arbitrary: x tot)
  case Nil
  then show ?case by simp
next
  case (Cons e evs)
  show ?case
  proof (cases "isByzantine e")
    case True
    then have "accumulate_confidence this (x, tot) e = (x, tot)"
      by (simp add: accumulate_confidence_def)
    with True Cons show ?thesis
      by simp
  next
    case False
    show ?thesis
    proof (cases "specialization e \<in> set object_prototype_names")
      case True
      with False have "accumulate_confidence this (x, tot) e = (js_add x NaN, Concatenated)"
        by (simp add: accumulate_confidence_def weight_of_table [OF assms] add_weight_Inherited)
      then show ?thesis
        by (simp add: foldl_accumulate_text)
    next
      case outside: False
      with False Cons.prems
      have "list_ex (\<lambda>e. specialization e \<in> set object_prototype_names) (filter (\<lambda>e. \<not> isByzantine e) evs)"
        by simp
      from Cons.IH [OF this, of "fst (accumulate_confidence this (x, tot) e)"
                      "snd (accumulate_confidence this (x, tot) e)"]
      show ?thesis
        by simp
    qed
  qed
qed

text \<open>
  Claim C8, as stated: the weight is 0.33 for any other specialization. For the specialization
  \<open>constructor\<close> the lookup finds the function every object inherits under that name: the
  weight is not 0.33, the product is \<open>NaN\<close>, the total weight becomes a string, and the
  overall confidence of a session with that one evaluation, of confidence 0.9, is 0 where the
  formula of the claim gives 0.9.
\<close>

theorem inherited_weight_counterexample:
  "weight_of new_ExplainableDecisionEngine ''constructor'' \<noteq> Weight (spec_weight ''constructor'')
   \<and> overall (calculateDetailedConfidence new_ExplainableDecisionEngine prototype_named_session)
       \<noteq> Num (spec_weighted_confidence (agentEvaluations prototype_named_session))"
  by (simp add: calculateDetailedConfidence_def accumulate_confidence_def weight_of_def
        new_ExplainableDecisionEngine_def object_prototype_names_def prototype_named_session_def
        prototype_named_roster_def agent_defs demo_draws_def spec_weighted_confidence_def
        spec_weight_def Let_def)

text \<open>
  Claim C8, amended. For every engine holding the weight table of the constructor, whatever
  its history (explaining never changes the table, so this is every engine a run reaches), and
  for every session: the weight of a specialization that is not the name of
  a property inherited from \<open>Object.prototype\<close> is 0.4 for validator, 0.35 for consensus, 0.25
  for security and 0.33 for any other; when no evaluation that is not flagged Byzantine has
  such an inherited name as its specialization, the overall confidence is the sum of
  confidence times weight over the evaluations not flagged Byzantine, divided by the sum of
  their weights, and 0 when every evaluation is flagged. For an inherited name the weight is
  the inherited property, and a session with such an evaluation not flagged Byzantine has
  overall confidence 0.
\<close>

theorem weighted_confidence_over_honest_evaluations:
  "confidenceWeights this = confidenceWeights new_ExplainableDecisionEngine \<Longrightarrow>
     (list_all (\<lambda>e. specialization e \<notin> set object_prototype_names)
               (filter (\<lambda>e. \<not> isByzantine e) (agentEvaluations s)) \<longrightarrow>
        overall (calculateDetailedConfidence this s)
          = (if list_all isByzantine (agentEvaluations s) then Num 0
             else Num ((\<Sum>e\<leftarrow>filter (\<lambda>e. \<not> isByzantine e) (agentEvaluations s).
                          confidence e * spec_weight (specialization e))
                       / (\<Sum>e\<leftarrow>filter (\<lambda>e. \<not> isByzantine e) (agentEvaluations s).
                          spec_weight (specialization e)))))
   \<and> (list_ex (\<lambda>e. specialization e \<in> set object_prototype_names)
               (filter (\<lambda>e. \<not> isByzantine e) (agentEvaluations s)) \<longrightarrow>
        overall (calculateDetailedConfidence this s) = Num 0)
   \<and> (sp \<notin> set object_prototype_names \<longrightarrow>
        weight_of this sp
          = Weight (if sp = ''validator'' then 4 / 10 else if sp = ''consensus'' then 35 / 100
                    else if sp = ''security'' then 25 / 100 else 33 / 100))
   \<and> (sp \<in> set object_prototype_names \<longrightarrow> weight_of this sp = Inherited sp)"
proof -
  assume table: "confidenceWeights this = confidenceWeights new_ExplainableDecisionEngine"
  let ?honest = "filter (\<lambda>e. \<not> isByzantine e) (agentEvaluations s)"
  have numbers: "overall (calculateDetailedConfidence this s)
          = (if list_all isByzantine (agentEvaluations s) then Num 0
             else Num ((\<Sum>e\<leftarrow>?honest. confidence e * spec_weight (specialization e))
                       / (\<Sum>e\<leftarrow>?honest. spec_weight (specialization e))))"
    if plain: "list_all (\<lambda>e. specialization e \<notin> set object_prototype_names) ?honest"
  proof (cases "list_all isByzantine (agentEvaluations s)")
    case True
    then have "?honest = []"
      by (simp add: filter_honest_empty)
    with True show ?thesis
      by (simp add: calculateDetailedConfidence_def Let_def
            foldl_accumulate_numbers [OF table plain, of 0 0])
  next
    case False
    then have "?honest \<noteq> []"
      by (simp add: filter_honest_empty)
    from sum_spec_weight_pos [OF this] False show ?thesis
      by (simp add: calculateDetailedConfidence_def Let_def js_div_def
            foldl_accumulate_numbers [OF table plain, of 0 0])
  qed
  have inherited: "overall (calculateDetailedConfidence this s) = Num 0"
    if "list_ex (\<lambda>e. specialization e \<in> set object_prototype_names) ?honest"
    using foldl_accumulate_inherited [OF table that, of "Num 0" "Summed 0"]
    by (simp add: calculateDetailedConfidence_def Let_def)
  have weights: "weight_of this sp
      = (if sp \<in> set object_prototype_names then Inherited sp else Weight (spec_weight sp))"
    by (rule weight_of_table [OF table])
  from numbers inherited weights show ?thesis
    by (simp add: spec_weight_def)
qed

theorem weighted_confidence_over_honest_evaluations_witness:
  "confidenceWeights full_engine = confidenceWeights new_ExplainableDecisionEngine
   \<and> decisionHistory full_engine \<noteq> []
   \<and> list_all (\<lambda>e. specialization e \<notin> set object_prototype_names)
              (filter (\<lambda>e. \<not> isByzantine e) (agentEvaluations corrected_session))
   \<and> overall (calculateDetailedConfidence full_engine corrected_session) = Num (9 / 10)
   \<and> list_ex (\<lambda>e. specialization e \<in> set object_prototype_names)
             (filter (\<lambda>e. \<not> isByzantine e) (agentEvaluations prototype_named_session))
   \<and> overall (calculateDetailedConfidence full_engine prototype_named_session) = Num 0
   \<and> weight_of full_engine ''biometric'' = Weight (33 / 100)
   \<and> weight_of full_engine ''constructor'' = Inherited ''constructor''"
proof -
  have table: "confidenceWeights full_engine = confidenceWeights new_ExplainableDecisionEngine"
    by (simp add: full_engine_def)
  have history: "decisionHistory full_engine \<noteq> []"
    by (simp add: full_engine_def)
  have evs: "agentEvaluations corrected_session
      = [ generateResponse (agents new_MultiAgentCoordinator ! 0) demo_identity demo_draws ''2025-01-01T00:00:00.050Z'',
          generateResponse (agents new_MultiAgentCoordinator ! 1) demo_identity demo_draws ''2025-01-01T00:00:00.050Z'',
          generateByzantineResponse ((agents new_MultiAgentCoordinator ! 2)\<lparr>agent_isByzantine := True\<rparr>)
            ''2025-01-01T00:00:00.050Z'' ]"
    by (simp add: corrected_session_def security_agent_byzantine_def update_agent_def
          new_MultiAgentCoordinator_def evaluateIdentity_def demo_draws_def)
  have plain: "list_all (\<lambda>e. specialization e \<notin> set object_prototype_names)
              (filter (\<lambda>e. \<not> isByzantine e) (agentEvaluations corrected_session))"
    unfolding evs
    by (simp add: generateResponse_def generateByzantineResponse_def new_MultiAgentCoordinator_def
          object_prototype_names_def Let_def)
  have honest: "\<not> list_all isByzantine (agentEvaluations corrected_session)"
    unfolding evs by (simp add: generateResponse_def Let_def)
  have quotient: "(\<Sum>e\<leftarrow>filter (\<lambda>e. \<not> isByzantine e) (agentEvaluations corrected_session).
                   confidence e * spec_weight (specialization e))
               / (\<Sum>e\<leftarrow>filter (\<lambda>e. \<not> isByzantine e) (agentEvaluations corrected_session).
                   spec_weight (specialization e)) = 9 / 10"
    unfolding evs
    by (simp add: generateResponse_def generateByzantineResponse_def new_MultiAgentCoordinator_def
          demo_draws_def spec_weight_def Let_def)
  have named: "list_ex (\<lambda>e. specialization e \<in> set object_prototype_names)
             (filter (\<lambda>e. \<not> isByzantine e) (agentEvaluations prototype_named_session))"
    by (simp add: prototype_named_session_def prototype_named_roster_def agent_defs demo_draws_def
          object_prototype_names_def Let_def)
  have biometric: "''biometric'' \<notin> set object_prototype_names"
    and constructor: "''constructor'' \<in> set object_prototype_names"
    by (simp_all add: object_prototype_names_def)
  note at_corrected = weighted_confidence_over_honest_evaluations
                        [OF table, of corrected_session "''biometric''"]
  note at_named = weighted_confidence_over_honest_evaluations
                        [OF table, of prototype_named_session "''constructor''"]
  from at_corrected plain honest quotient
  have one: "overall (calculateDetailedConfidence full_engine corrected_session) = Num (9 / 10)"
    by simp
  from at_named named
  have two: "overall (calculateDetailedConfidence full_engine prototype_named_session) = Num 0"
    by blast
  from at_corrected biometric
  have three: "weight_of full_engine ''biometric'' = Weight (33 / 100)"
    by simp
  from at_named constructor
  have four: "weight_of full_engine ''constructor'' = Inherited ''constructor''"
    by blast
  from table history plain one named two three four show ?thesis
    by blast
qed

text \<open>
  Claim C9. For every session the anomaly score is the sum, capped at 1, of 0.3 for a
  processing time above 3000 ms, 0.4 for a consensus ratio below 0.7, 0.5 for a detected
  Byzantine evaluation and 0.6 for a mean confidence below 0.5. A session that triggers every
  condition another one triggers scores at least as much, and a session with a Byzantine
  evaluation, a ratio below 0.7 and a mean confidence below 0.5 scores exactly 1.
\<close>

theorem anomaly_score_sum_then_clamp:
  "calculateAnomalyScore s
     = min 1 ((if 3000 < processingTime s then 3 / 10 else 0)
            + (if js_lt (consensusRatio (consensus s)) (7 / 10) then 4 / 10 else 0)
            + (if byzantineDetected s then 5 / 10 else 0)
            + (if js_lt (averageConfidence (consensus s)) (5 / 10) then 6 / 10 else 0))
   \<and> ((3000 < processingTime s \<longrightarrow> 3000 < processingTime s')
        \<and> (js_lt (consensusRatio (consensus s)) (7 / 10) \<longrightarrow> js_lt (consensusRatio (consensus s')) (7 / 10))
        \<and> (byzantineDetected s \<longrightarrow> byzantineDetected s')
        \<and> (js_lt (averageConfidence (consensus s)) (5 / 10) \<longrightarrow> js_lt (averageConfidence (consensus s')) (5 / 10))
       \<longrightarrow> calculateAnomalyScore s \<le> calculateAnomalyScore s')
   \<and> (byzantineDetected s \<and> js_lt (consensusRatio (consensus s)) (7 / 10)
        \<and> js_lt (averageConfidence (consensus s)) (5 / 10)
       \<longrightarrow> calculateAnomalyScore s = 1)
   \<and> 0 \<le> calculateAnomalyScore s \<and> calculateAnomalyScore s \<le> 1"
  by (simp add: calculateAnomalyScore_def Let_def)

theorem anomaly_score_sum_then_clamp_witness:
  "calculateAnomalyScore approved_session = 0
   \<and> calculateAnomalyScore corrected_session = 9 / 10
   \<and> calculateAnomalyScore approved_session \<le> calculateAnomalyScore corrected_session
   \<and> byzantineDetected hostile_session
   \<and> js_lt (consensusRatio (consensus hostile_session)) (7 / 10)
   \<and> js_lt (averageConfidence (consensus hostile_session)) (5 / 10)
   \<and> calculateAnomalyScore hostile_session = 1"
proof -
  have a: "\<not> 3000 < processingTime approved_session"
    "\<not> js_lt (consensusRatio (consensus approved_session)) (7 / 10)"
    "\<not> byzantineDetected approved_session"
    "\<not> js_lt (averageConfidence (consensus approved_session)) (5 / 10)"
    by (simp_all add: approved_session_def)
  have c: "\<not> 3000 < processingTime corrected_session"
    "js_lt (consensusRatio (consensus corrected_session)) (7 / 10)"
    "byzantineDetected corrected_session"
    "\<not> js_lt (averageConfidence (consensus corrected_session)) (5 / 10)"
    by (simp_all add: corrected_session_def)
  have h: "byzantineDetected hostile_session"
    "js_lt (consensusRatio (consensus hostile_session)) (7 / 10)"
    "js_lt (averageConfidence (consensus hostile_session)) (5 / 10)"
    by (simp_all add: hostile_session_def)
  from anomaly_score_sum_then_clamp [of approved_session corrected_session] a c
  have 1: "calculateAnomalyScore approved_session = 0"
    "calculateAnomalyScore approved_session \<le> calculateAnomalyScore corrected_session"
    by simp_all
  from anomaly_score_sum_then_clamp [of corrected_session corrected_session] c
  have 2: "calculateAnomalyScore corrected_session = 9 / 10"
    by simp
  from anomaly_score_sum_then_clamp [of hostile_session hostile_session] h
  have 3: "calculateAnomalyScore hostile_session = 1"
    by blast
  from 1 2 3 h show ?thesis by blast
qed

section \<open>Vehicle health score\<close>

text \<open>
  Claim C10, as stated: the score deducts for an engine temperature only above 100. The code
  has a second band, 10 points between 90 and 100: a reading at 95 with nothing else wrong
  scores 90, where the table of the claim gives 100.
\<close>

theorem warm_engine_counterexample:
  "healthScore (updateHealthScore warm_twin) \<noteq> spec_health_score (currentState warm_twin)"
  by (simp add: updateHealthScore_def spec_health_score_def warm_twin_def warm_reading_def
        new_VehicleDigitalTwin_def Let_def)

lemma healthScore_updateHealthScore: "healthScore (updateHealthScore this) = deduction_table (currentState this)"
  by (simp add: updateHealthScore_def deduction_table_def Let_def)

lemma currentState_trim:
  "currentState (if c then t\<lparr>telemetryData := xs\<rparr> else t) = currentState t"
  by simp

lemma healthScore_updateTelemetryData: "healthScore (updateTelemetryData this now r) = deduction_table r"
  unfolding updateTelemetryData_def Let_def healthScore_updateHealthScore currentState_trim
  by simp

lemma deduction_table_range: "0 \<le> deduction_table r \<and> deduction_table r \<le> 100"
  unfolding deduction_table_def by (simp add: max_def)

lemma updateHealthScore_keeps:
  "currentState (updateHealthScore t) = currentState t"
  "telemetryData (updateHealthScore t) = telemetryData t"
  unfolding updateHealthScore_def Let_def by (simp_all split: if_splits)

lemma updateTelemetryData_reading: "currentState (updateTelemetryData t now r) = r"
  unfolding updateTelemetryData_def Let_def updateHealthScore_keeps by simp

text \<open>
  Claim C10, amended. The recomputed health score is a function of the current reading only:
  starting from 100, deduct 20 for an engine temperature above 100 and otherwise 10 for one
  above 90, 15 for an oil pressure below 25, 10 for a battery voltage below 12.0 and 5 for each
  active diagnostic code, floored at 0. Two twins with the same current reading get the same
  score whatever their telemetry histories, and a tick of the timer scores the new reading
  alone.
\<close>

theorem health_score_from_current_reading:
  "healthScore (updateHealthScore this) = deduction_table (currentState this)
   \<and> (currentState this = currentState other \<longrightarrow>
        healthScore (updateHealthScore this) = healthScore (updateHealthScore other))
   \<and> healthScore (updateTelemetryData this now r) = deduction_table r
   \<and> 0 \<le> healthScore (updateHealthScore this) \<and> healthScore (updateHealthScore this) \<le> 100"
  using deduction_table_range [of "currentState this"]
  by (simp add: healthScore_updateHealthScore healthScore_updateTelemetryData)

theorem health_score_from_current_reading_witness:
  "currentState warm_twin = currentState (updateTelemetryData warm_twin ''2025-01-01T00:00:05.000Z'' warm_reading)
   \<and> telemetryData warm_twin \<noteq> telemetryData (updateTelemetryData warm_twin ''2025-01-01T00:00:05.000Z'' warm_reading)
   \<and> healthScore (updateHealthScore warm_twin)
       = healthScore (updateHealthScore (updateTelemetryData warm_twin ''2025-01-01T00:00:05.000Z'' warm_reading))
   \<and> healthScore (updateHealthScore warm_twin) = 90"
proof -
  have cs: "currentState warm_twin
      = currentState (updateTelemetryData warm_twin ''2025-01-01T00:00:05.000Z'' warm_reading)"
    unfolding updateTelemetryData_reading by (simp add: warm_twin_def new_VehicleDigitalTwin_def)
  have td: "telemetryData warm_twin
      \<noteq> telemetryData (updateTelemetryData warm_twin ''2025-01-01T00:00:05.000Z'' warm_reading)"
    unfolding updateTelemetryData_def Let_def updateHealthScore_keeps
    by (simp add: warm_twin_def new_VehicleDigitalTwin_def)
  have v: "deduction_table (currentState warm_twin) = 90"
    by (simp add: deduction_table_def warm_twin_def warm_reading_def new_VehicleDigitalTwin_def)
  note table = health_score_from_current_reading [of warm_twin
         "updateTelemetryData warm_twin ''2025-01-01T00:00:05.000Z'' warm_reading"
         "''2025-01-01T00:00:05.000Z''" warm_reading]
  from table [THEN conjunct2, THEN conjunct1] cs
  have same: "healthScore (updateHealthScore warm_twin)
       = healthScore (updateHealthScore (updateTelemetryData warm_twin ''2025-01-01T00:00:05.000Z'' warm_reading))"
    by (rule mp)
  from table [THEN conjunct1] v have ninety: "healthScore (updateHealthScore warm_twin) = 90"
    by (rule trans)
  show ?thesis
    by (rule conjI [OF cs conjI [OF td conjI [OF same ninety]]])
qed

end
